theory Spec2Isabelle
  imports Complex_Main
begin

section \<open>Data model (src/src/types.ts)\<close>

text \<open>
  The \<^verbatim>\<open>Issue\<close> interface: \<^verbatim>\<open>type\<close> and \<^verbatim>\<open>severity\<close> are closed string unions and
  become datatypes. Descriptions are template strings that embed numbers; the embedded
  numbers are kept as fragments instead of being printed, so that a description records
  which value was formatted and how (\<^verbatim>\<open>${x}\<close>, \<^verbatim>\<open>x.toFixed(1)\<close>, \<^verbatim>\<open>x.toFixed(2)\<close>).
  JavaScript numbers are modelled as exact reals (integers where the code only handles
  integers); NaN and rounding of IEEE doubles are outside the model.
  A thrown \<^verbatim>\<open>TypeError\<close> is a value of \<open>js_error\<close>, named after the operation that
  failed and the property involved; its message text is the engine's and stays symbolic
  (\<open>Message\<close> stands for \<^verbatim>\<open>error.message\<close> inside a description).
  \<open>InheritedProperty k\<close> stands for the value of \<^verbatim>\<open>Object.prototype[k]\<close>, which a lookup
  in a plain object finds under an inherited key.
\<close>

datatype issue_type = Accessibility | Seo | Performance | Heuristic

datatype severity = SevError | SevWarning | SevInfo

datatype js_error =
    TypeError_in string
  | TypeError_property string
  | TypeError_not_iterable string
  | TypeError_not_function string

datatype frag =
    Lit string | Num real | ToFixed1 real | ToFixed2 real | Message js_error
  | InheritedProperty string

record issue =
  itype :: issue_type
  severity :: severity
  title :: string
  description :: "frag list"
  remediation :: "frag list option"
  element :: "string option"

record settings =
  accessibilityChecks :: bool
  heuristicChecks :: bool
  seoChecks :: bool
  performanceChecks :: bool
  exportFormat :: string
  includeScreenshots :: bool
  includeRemediation :: bool
  lighthouseApiKey :: string
  useAI :: bool

section \<open>Scorer (the frame audit module, src/unnamed/part_003)\<close>

text \<open>
  \<^verbatim>\<open>calculateAccessibilityScore\<close>: \<^verbatim>\<open>let score = 100\<close>, a \<^verbatim>\<open>forEach\<close> that subtracts
  inside \<^verbatim>\<open>if (issue.type === 'accessibility')\<close> by a \<^verbatim>\<open>switch\<close> on the severity, and
  \<^verbatim>\<open>Math.max(0, Math.min(100, score))\<close> after the loop.
\<close>

definition accessibilityStep :: "int \<Rightarrow> issue \<Rightarrow> int" where
  "accessibilityStep score i =
     (if itype i = Accessibility then
        (case severity i of
           SevError \<Rightarrow> score - 15
         | SevWarning \<Rightarrow> score - 8
         | SevInfo \<Rightarrow> score - 3)
      else score)"

definition calculateAccessibilityScore :: "issue list \<Rightarrow> int" where
  "calculateAccessibilityScore iss =
     max 0 (min 100 (foldl accessibilityStep 100 iss))"

definition heuristicsStep :: "int \<Rightarrow> issue \<Rightarrow> int" where
  "heuristicsStep score i =
     (if itype i = Heuristic then
        (case severity i of
           SevError \<Rightarrow> score - 12
         | SevWarning \<Rightarrow> score - 7
         | SevInfo \<Rightarrow> score - 3)
      else score)"

definition calculateHeuristicsScore :: "issue list \<Rightarrow> int" where
  "calculateHeuristicsScore iss =
     max 0 (min 100 (foldl heuristicsStep 100 iss))"

text \<open>
  The specification's \<^verbatim>\<open>scoreCategory\<close>, written from its words: 100 minus the sum of
  the per-severity weights of the issues of the category, clamped once.
\<close>

fun spec_weight :: "issue_type \<Rightarrow> severity \<Rightarrow> int" where
  "spec_weight Accessibility SevError = 15"
| "spec_weight Accessibility SevWarning = 8"
| "spec_weight Accessibility SevInfo = 3"
| "spec_weight Heuristic SevError = 12"
| "spec_weight Heuristic SevWarning = 7"
| "spec_weight Heuristic SevInfo = 3"
| "spec_weight _ _ = 0"

definition spec_scoreCategory :: "issue list \<Rightarrow> issue_type \<Rightarrow> int" where
  "spec_scoreCategory iss c =
     max 0 (min 100 (100 - sum_list (map (\<lambda>i. spec_weight c (severity i))
                                       (filter (\<lambda>i. itype i = c) iss))))"

section \<open>Remote audit adapter (src/UXAudit/src/lighthouse.ts)\<close>

text \<open>
  \<^verbatim>\<open>AuditResult\<close>: the accessibility and overall scores are plain numbers, the other
  three scores are optional fields. \<^verbatim>\<open>LighthouseResult\<close>: a category that was not
  requested is missing from \<^verbatim>\<open>categories\<close> (\<open>NoCategory\<close>), a category that is there
  has a score or \<^verbatim>\<open>null\<close> (\<open>NoScore\<close>); \<^verbatim>\<open>audits\<close> is an object enumerated by
  \<^verbatim>\<open>Object.entries\<close>, here the list of its entries in enumeration order, each with a
  score that is a number or \<^verbatim>\<open>null\<close>.
\<close>

datatype category_score = NoCategory | NoScore | Score real

record audit_result =
  accessibility :: int
  heuristics :: "int option"
  seo :: "int option"
  performance :: "int option"
  overall :: int
  issues :: "issue list"

record audit_entry =
  audit_score :: "real option"
  audit_title :: string
  audit_description :: string

record lighthouse_result =
  cat_accessibility :: category_score
  cat_seo :: category_score
  cat_performance :: category_score
  cat_best_practices :: category_score
  audits :: "(string \<times> audit_entry) list"

text \<open>\<^verbatim>\<open>Math.round\<close> rounds to the nearest integer, halves towards plus infinity.\<close>

definition js_round :: "real \<Rightarrow> int" where
  "js_round x = \<lfloor>x + 1 / 2\<rfloor>"

text \<open>\<^verbatim>\<open>s.startsWith(p)\<close>.\<close>

definition startsWith :: "string \<Rightarrow> string \<Rightarrow> bool" where
  "startsWith s p = (take (length p) s = p)"

text \<open>
  \<^verbatim>\<open>(c && c.score) || 0\<close>, then \<^verbatim>\<open>Math.round(... * 100)\<close>. The product is a product
  of doubles, rounded by the engine before \<^verbatim>\<open>Math.round\<close> sees it (0.285 * 100 is a
  little less than 28.5 there), so the function \<open>round100\<close> that takes a score to
  \<^verbatim>\<open>Math.round(score * 100)\<close> is a parameter of the model and not
  \<open>\<lambda>x. js_round (x * 100)\<close>.
\<close>

definition scoreOrZero :: "category_score \<Rightarrow> real" where
  "scoreOrZero c = (case c of Score sc \<Rightarrow> sc | _ \<Rightarrow> 0)"

definition categoryPercent :: "(real \<Rightarrow> int) \<Rightarrow> category_score \<Rightarrow> int" where
  "categoryPercent round100 c = round100 (scoreOrZero c)"

text \<open>
  \<^verbatim>\<open>generateRemediation\<close>: \<^verbatim>\<open>remediationMap[id] || generic advice\<close>. The table is a
  plain object, so a rule id that is a property name of \<^verbatim>\<open>Object.prototype\<close> finds the
  inherited value (a function or the prototype itself, truthy in either case).
\<close>

definition remediationMap :: "(string \<times> string) list" where
  "remediationMap =
   [(''color-contrast'', ''Increase the contrast ratio between text and background to at least 4.5:1 for normal text or 3:1 for large text.''),
    (''document-title'', ''Add a descriptive title to the page using the <title> element.''),
    (''html-has-lang'', ''Add a lang attribute to the HTML element to specify the language of the page.''),
    (''meta-viewport'', ''Add a <meta name='' @ [CHR 0x22] @ ''viewport'' @ [CHR 0x22] @ ''> tag with appropriate content to ensure proper rendering on mobile devices.''),
    (''image-alt'', ''Add alt text to all images to describe their content for screen reader users.''),
    (''link-name'', ''Ensure all links have descriptive text that explains their purpose.''),
    (''button-name'', ''Ensure all buttons have accessible names that describe their action.''),
    (''aria-allowed-attr'', ''Remove invalid ARIA attributes from elements.''),
    (''aria-required-attr'', ''Add required ARIA attributes to elements that use ARIA roles.''),
    (''aria-roles'', ''Use only valid ARIA roles.''),
    (''aria-valid-attr-value'', ''Ensure ARIA attributes have valid values.''),
    (''aria-valid-attr'', ''Ensure ARIA attributes are valid.''),
    (''duplicate-id'', ''Ensure all IDs in the document are unique.''),
    (''heading-order'', ''Structure headings in a logical order (h1, then h2, etc.) without skipping levels.''),
    (''html-lang-valid'', ''Use a valid language code in the lang attribute.''),
    (''form-field-multiple-labels'', ''Ensure form fields have only one associated label.''),
    (''frame-title'', ''Add title attributes to all frames and iframes.''),
    (''input-image-alt'', ''Add alt text to all image inputs.''),
    (''label'', ''Associate labels with form controls using the for attribute or nesting.''),
    (''layout-table'', ''Use CSS for layout instead of tables.''),
    (''link-text'', ''Avoid generic link text like '' @ [CHR 0x22] @ ''click here'' @ [CHR 0x22] @ '' or '' @ [CHR 0x22] @ ''read more'' @ [CHR 0x22] @ ''.''),
    (''list'', ''Use proper list markup (ul, ol, li) for lists.''),
    (''listitem'', ''Ensure list items are contained within proper list elements.''),
    (''meta-refresh'', ''Avoid using meta refresh to redirect or refresh pages.''),
    (''object-alt'', ''Provide alternative text for object elements.''),
    (''tabindex'', ''Avoid using tabindex values greater than 0.''),
    (''td-headers-attr'', ''Use headers attribute on table cells to associate with the appropriate headers.''),
    (''th-has-data-cells'', ''Ensure table headers have associated data cells.''),
    (''valid-lang'', ''Use valid language codes in lang attributes.''),
    (''video-caption'', ''Provide captions for video elements.''),
    (''video-description'', ''Provide audio descriptions for video content.''),
    (''meta-description'', ''Add a meta description tag to improve SEO.''),
    (''http-status-code'', ''Ensure the page returns a valid HTTP status code (200).''),
    (''font-size'', ''Ensure text is at least 16px or 12pt for readability.''),
    (''tap-targets'', ''Make touch targets at least 44x44 pixels for better mobile usability.''),
    (''viewport'', ''Configure the viewport for responsive design.'')]"

definition objectPrototypeKeys :: "string list" where
  "objectPrototypeKeys =
     [''constructor'', ''__defineGetter__'', ''__defineSetter__'', ''hasOwnProperty'',
      ''__lookupGetter__'', ''__lookupSetter__'', ''isPrototypeOf'', ''propertyIsEnumerable'',
      ''toString'', ''valueOf'', ''__proto__'', ''toLocaleString'']"

definition generateRemediation :: "string \<Rightarrow> frag" where
  "generateRemediation rid =
     (case map_of remediationMap rid of
        Some advice \<Rightarrow> Lit advice
      | None \<Rightarrow>
          if rid \<in> set objectPrototypeKeys then InheritedProperty rid
          else Lit ''Review the issue and make appropriate changes to improve accessibility, performance, or SEO.'')"

text \<open>
  The body of the \<^verbatim>\<open>forEach\<close> over \<^verbatim>\<open>Object.entries(data.audits)\<close>: it returns early
  for a passed or not applicable audit, classifies the rule id, returns early when the
  category is switched off, derives the severity and pushes one issue.
\<close>

definition auditStep :: "settings \<Rightarrow> issue list \<Rightarrow> string \<times> audit_entry \<Rightarrow> issue list" where
  "auditStep st acc e =
     (let rid = fst e; audit = snd e in
      if audit_score audit = Some 1 \<or> audit_score audit = None then acc
      else
        let ty = (if startsWith rid ''seo-'' then Seo
                  else if startsWith rid ''performance-'' \<or> startsWith rid ''speed-''
                          \<or> startsWith rid ''load-'' then Performance
                  else Accessibility)
        in
        if (ty = Accessibility \<and> \<not> accessibilityChecks st)
           \<or> (ty = Seo \<and> \<not> seoChecks st)
           \<or> (ty = Performance \<and> \<not> performanceChecks st) then acc
        else
          let sev = (case audit_score audit of
                       None \<Rightarrow> SevInfo
                     | Some sc \<Rightarrow>
                         if sc < 0.5 then SevError
                         else if sc < 0.9 then SevWarning
                         else SevInfo)
          in acc @ [\<lparr>itype = ty, severity = sev, title = audit_title audit,
                      description = [Lit (audit_description audit)],
                      remediation = (if includeRemediation st
                                     then Some [generateRemediation rid] else None),
                      element = None\<rparr>])"

definition processLighthouseResults ::
  "(real \<Rightarrow> int) \<Rightarrow> lighthouse_result \<Rightarrow> settings \<Rightarrow> audit_result" where
  "processLighthouseResults round100 data st =
     (let accessibilityScore = categoryPercent round100 (cat_accessibility data);
          seoScore = (if seoChecks st then categoryPercent round100 (cat_seo data) else 0);
          performanceScore =
            (if performanceChecks st then categoryPercent round100 (cat_performance data)
             else 0);
          overallScore = accessibilityScore;
          divisor = (1::int);
          overallScore = (if seoChecks st then overallScore + seoScore else overallScore);
          divisor = (if seoChecks st then divisor + 1 else divisor);
          overallScore =
            (if performanceChecks st then overallScore + performanceScore else overallScore);
          divisor = (if performanceChecks st then divisor + 1 else divisor);
          overallScore = js_round (real_of_int overallScore / real_of_int divisor)
      in \<lparr>accessibility = accessibilityScore,
          heuristics = None,
          seo = (if seoChecks st then Some seoScore else None),
          performance = (if performanceChecks st then Some performanceScore else None),
          overall = overallScore,
          issues = foldl (auditStep st) [] (audits data)\<rparr>)"

text \<open>
  \<^verbatim>\<open>runFallbackAudit\<close>: the fixed result, its four issues filtered by the toggles.
\<close>

definition fallbackIssues :: "issue list" where
  "fallbackIssues =
   [\<lparr>itype = Accessibility, severity = SevWarning,
     title = ''Low contrast elements detected'',
     description = [Lit ''Some text elements may have insufficient contrast with their background.''],
     remediation = Some [Lit ''Ensure all text has a contrast ratio of at least 4.5:1 with its background.''],
     element = None\<rparr>,
    \<lparr>itype = Accessibility, severity = SevError,
     title = ''Missing image alt text'',
     description = [Lit ''Some images on the page lack alternative text descriptions.''],
     remediation = Some [Lit ''Add descriptive alt text to all images that convey information.''],
     element = None\<rparr>,
    \<lparr>itype = Seo, severity = SevWarning,
     title = ''Missing meta description'',
     description = [Lit ''The page lacks a meta description tag for search engines.''],
     remediation = Some [Lit ''Add a concise, descriptive meta description tag to improve SEO.''],
     element = None\<rparr>,
    \<lparr>itype = Performance, severity = SevWarning,
     title = ''Large image files'',
     description = [Lit ''Some images are not optimized for web delivery.''],
     remediation = Some [Lit ''Compress images and consider using WebP format for better performance.''],
     element = None\<rparr>]"

definition fallbackKeep :: "settings \<Rightarrow> issue \<Rightarrow> bool" where
  "fallbackKeep st i =
     (if itype i = Accessibility \<and> \<not> accessibilityChecks st then False
      else if itype i = Seo \<and> \<not> seoChecks st then False
      else if itype i = Performance \<and> \<not> performanceChecks st then False
      else True)"

definition runFallbackAudit :: "string \<Rightarrow> settings \<Rightarrow> audit_result" where
  "runFallbackAudit url st =
     \<lparr>accessibility = 75,
      heuristics = None,
      seo = (if seoChecks st then Some 80 else None),
      performance = (if performanceChecks st then Some 65 else None),
      overall = 73,
      issues = filter (fallbackKeep st) fallbackIssues\<rparr>"

text \<open>
  The classification and the severity of one audit entry, written from the
  specification's words, and the issue that carries them; the specification leaves the
  other fields of the issue open, they are the entry's title and description and the
  remediation text as the code fills them.
\<close>

definition spec_category :: "string \<Rightarrow> issue_type" where
  "spec_category rid =
     (if startsWith rid ''seo-'' then Seo
      else if startsWith rid ''performance-'' then Performance
      else if startsWith rid ''speed-'' then Performance
      else if startsWith rid ''load-'' then Performance
      else Accessibility)"

definition spec_severity :: "real \<Rightarrow> severity" where
  "spec_severity sc =
     (if sc < 0.5 then SevError
      else if 0.5 \<le> sc \<and> sc < 0.9 then SevWarning
      else SevInfo)"

definition spec_entryIssue :: "settings \<Rightarrow> string \<times> audit_entry \<Rightarrow> real \<Rightarrow> issue" where
  "spec_entryIssue st e sc =
     \<lparr>itype = spec_category (fst e), severity = spec_severity sc,
      title = audit_title (snd e),
      description = [Lit (audit_description (snd e))],
      remediation = (if includeRemediation st then Some [generateRemediation (fst e)] else None),
      element = None\<rparr>"

text \<open>
  The specification's mapping of an entry: nothing for a score of 1 or \<^verbatim>\<open>null\<close>, the
  issue above for every other entry.
\<close>

definition spec_entryIssues :: "settings \<Rightarrow> string \<times> audit_entry \<Rightarrow> issue list" where
  "spec_entryIssues st e =
     (case audit_score (snd e) of
        None \<Rightarrow> []
      | Some sc \<Rightarrow> if sc = 1 then [] else [spec_entryIssue st e sc])"

text \<open>Whether the checks of a category are switched on in the settings.\<close>

fun categoryEnabled :: "settings \<Rightarrow> issue_type \<Rightarrow> bool" where
  "categoryEnabled st Accessibility = accessibilityChecks st"
| "categoryEnabled st Seo = seoChecks st"
| "categoryEnabled st Performance = performanceChecks st"
| "categoryEnabled st Heuristic = heuristicChecks st"

section \<open>Element tree (the host's nodes, as the analysis reads them)\<close>

text \<open>
  A node is read through a handful of properties. Besides well-formed values the model
  has the malformed shapes that make the JavaScript throw: a \<^verbatim>\<open>null\<close> where a node or
  a paint is expected, a solid paint without its \<^verbatim>\<open>color\<close>, and a \<^verbatim>\<open>children\<close> value
  that is neither an array nor iterable (a plain object: no \<^verbatim>\<open>length\<close>, \<^verbatim>\<open>some\<close> or
  \<^verbatim>\<open>filter\<close>). A paint's \<open>visible\<close> is false only for
  \<^verbatim>\<open>visible === false\<close>. \<open>reactions\<close> is the length of the reactions array (0 when
  there is none). Scene nodes always carry \<^verbatim>\<open>x\<close>, \<^verbatim>\<open>width\<close> and \<^verbatim>\<open>height\<close>. Strings
  are byte strings, the UTF-8 encoding of the text.
\<close>

datatype color = Color (cr: real) (cg: real) (cb: real)

datatype paint =
    Solid (visible: bool) "color option"
  | NonSolid (visible: bool)
  | NullPaint

datatype fills_prop = NoFills | MixedFills | FillsArray "paint list"

datatype js_num = MixedValue | Numeric real

datatype node_kind =
  TEXT | FRAME | GROUP | COMPONENT | INSTANCE | RECTANGLE | OTHER_KIND

record props =
  kind :: node_kind
  node_name :: string
  fills :: fills_prop
  fontSize :: js_num
  fontWeight :: js_num
  characters :: string
  reactions :: nat
  node_x :: real
  node_width :: real
  node_height :: real

datatype 'a children_prop = NoChildren | Children "'a list" | BadChildren

datatype node = NullNode | Node props "node children_prop"

section \<open>Colour mathematics (src/UXAudit/src/accessibility.ts)\<close>

definition convertChannel :: "real \<Rightarrow> real" where
  "convertChannel channel =
     (if channel \<le> 0.03928 then channel / 12.92
      else ((channel + 0.055) / 1.055) powr 2.4)"

definition calculateLuminance :: "color \<Rightarrow> real" where
  "calculateLuminance c =
     0.2126 * convertChannel (cr c) + 0.7152 * convertChannel (cg c)
       + 0.0722 * convertChannel (cb c)"

definition calculateContrastRatio :: "color \<Rightarrow> color \<Rightarrow> real" where
  "calculateContrastRatio color1 color2 =
     (let l1 = calculateLuminance color1;
          l2 = calculateLuminance color2;
          lighter = max l1 l2;
          darker = min l1 l2
      in (lighter + 0.05) / (darker + 0.05))"

section \<open>Accessibility rules (src/UXAudit/src/accessibility.ts)\<close>

text \<open>
  \<^verbatim>\<open>Array.prototype.find\<close> with the callback
  \<^verbatim>\<open>fill.type === 'SOLID' && fill.visible !== false\<close>: the callback throws on a
  \<^verbatim>\<open>null\<close> entry that it reaches.
\<close>

fun findSolidVisible :: "paint list \<Rightarrow> js_error + paint option" where
  "findSolidVisible [] = Inr None"
| "findSolidVisible (NullPaint # ps) = Inl (TypeError_property ''type'')"
| "findSolidVisible (Solid v c # ps) =
     (if v then Inr (Some (Solid v c)) else findSolidVisible ps)"
| "findSolidVisible (NonSolid v # ps) = findSolidVisible ps"

text \<open>
  \<^verbatim>\<open>getNodeColor\<close> reads only \<^verbatim>\<open>node.fills\<close>. \<open>getNodeColor_try\<close> is the body of its
  \<^verbatim>\<open>try\<close> block, which throws at a \<^verbatim>\<open>null\<close> paint that the search reaches and at a
  visible solid paint without colour (\<^verbatim>\<open>solidFill.color.r\<close>); the \<^verbatim>\<open>catch\<close> block logs
  the exception and returns \<^verbatim>\<open>null\<close>.
\<close>

definition getNodeColor_try :: "fills_prop \<Rightarrow> js_error + color option" where
  "getNodeColor_try f =
     (case f of
        FillsArray ps \<Rightarrow>
          (if ps = [] then Inr None
           else case findSolidVisible ps of
                  Inl err \<Rightarrow> Inl err
                | Inr None \<Rightarrow> Inr None
                | Inr (Some (Solid v (Some c))) \<Rightarrow> Inr (Some (Color (cr c) (cg c) (cb c)))
                | Inr (Some (Solid v None)) \<Rightarrow> Inl (TypeError_property ''r'')
                | Inr (Some _) \<Rightarrow> Inr None)
      | _ \<Rightarrow> Inr None)"

definition getNodeColor :: "fills_prop \<Rightarrow> color option" where
  "getNodeColor f = (case getNodeColor_try f of Inl err \<Rightarrow> None | Inr found \<Rightarrow> found)"

text \<open>
  The \<^verbatim>\<open>while (parent && !bgColor)\<close> loop of \<^verbatim>\<open>checkTextContrast\<close>, over the fills of
  the ancestors from the parent up to the document root.
\<close>

fun parentBackground :: "fills_prop list \<Rightarrow> color option" where
  "parentBackground [] = None"
| "parentBackground (f # up) =
     (let bgColor = (case f of
                       FillsArray ps \<Rightarrow> (if ps \<noteq> [] then getNodeColor f else None)
                     | _ \<Rightarrow> None)
      in case bgColor of
           Some c \<Rightarrow> Some c
         | None \<Rightarrow> parentBackground up)"

text \<open>The part of \<^verbatim>\<open>checkTextContrast\<close> after the contrast ratio is known.\<close>

definition wcagCheck :: "real \<Rightarrow> js_num \<Rightarrow> js_num \<Rightarrow> issue list" where
  "wcagCheck contrastRatio fsize fweight =
     (let fontSz = (case fsize of Numeric n \<Rightarrow> n | MixedValue \<Rightarrow> 14);
          isBold = (case fweight of Numeric w \<Rightarrow> w \<ge> 700 | MixedValue \<Rightarrow> False);
          isLargeText = (fontSz \<ge> 18 \<or> (fontSz \<ge> 14 \<and> isBold));
          requiredRatio = (if isLargeText then 3 else 4.5)
      in if contrastRatio < requiredRatio then
           [\<lparr>itype = Accessibility, severity = SevWarning, title = ''Low contrast text'',
             description = [Lit ''Text has '', ToFixed1 contrastRatio,
                            Lit '':1 contrast ratio (WCAG AA requires '', Num requiredRatio,
                            Lit '':1)''],
             remediation = Some [Lit ''Increase the contrast between text and background to at least '',
                                 Num requiredRatio, Lit '':1.''],
             element = None\<rparr>]
         else [])"

definition checkTextContrast :: "fills_prop list \<Rightarrow> props \<Rightarrow> issue list" where
  "checkTextContrast up p =
     (if kind p \<noteq> TEXT then []
      else case getNodeColor (fills p) of
             None \<Rightarrow> []
           | Some textColor \<Rightarrow>
               (let bgColor = (case parentBackground up of
                                 Some c \<Rightarrow> c
                               | None \<Rightarrow> Color 1 1 1)
                in wcagCheck (calculateContrastRatio textColor bgColor)
                     (fontSize p) (fontWeight p)))"

definition checkTextSize :: "props \<Rightarrow> issue list" where
  "checkTextSize p =
     (case fontSize p of
        Numeric n \<Rightarrow>
          (if n < 12 then
             [\<lparr>itype = Accessibility, severity = SevWarning, title = ''Small text size'',
               description = [Lit ''Text size is '', Num n,
                              Lit ''px (recommended minimum is 12px)''],
               remediation = Some [Lit ''Increase text size to at least 12px for better readability.''],
               element = None\<rparr>]
           else [])
      | MixedValue \<Rightarrow> [])"

definition checkTouchTargetSize :: "props \<Rightarrow> issue list" where
  "checkTouchTargetSize p =
     (if node_width p < 44 \<or> node_height p < 44 then
        [\<lparr>itype = Accessibility, severity = SevWarning, title = ''Small touch target'',
          description = [Lit ''Interactive element size is '',
                         Num (real_of_int (js_round (node_width p))), Lit ''x'',
                         Num (real_of_int (js_round (node_height p))),
                         Lit ''px (recommended minimum is 44x44px)''],
          remediation = Some [Lit ''Increase the size of interactive elements to at least 44x44px for better touch accessibility.''],
          element = None\<rparr>]
      else [])"

definition accessibilityErrorIssue :: "js_error \<Rightarrow> issue" where
  "accessibilityErrorIssue err =
     \<lparr>itype = Accessibility, severity = SevError, title = ''Accessibility analysis error'',
      description = [Lit ''Error analyzing accessibility: '', Message err],
      remediation = None, element = None\<rparr>"

text \<open>The three checks \<^verbatim>\<open>analyzeAccessibility\<close> runs on the node itself, in order.\<close>

definition accessibilityOwnIssues :: "fills_prop list \<Rightarrow> props \<Rightarrow> issue list" where
  "accessibilityOwnIssues up p =
     (case fills p of FillsArray ps \<Rightarrow> checkTextContrast up p | _ \<Rightarrow> [])
     @ (if kind p = TEXT then checkTextSize p else [])
     @ (if reactions p > 0 then checkTouchTargetSize p else [])"

text \<open>
  \<^verbatim>\<open>analyzeAccessibility\<close>. The second argument is the fills of the ancestors of the
  node (its \<^verbatim>\<open>parent\<close> chain), nearest first. A \<^verbatim>\<open>null\<close> node throws at
  \<^verbatim>\<open>'fills' in node\<close>, a non-iterable \<^verbatim>\<open>children\<close> at the \<^verbatim>\<open>for ... of\<close>; the
  \<^verbatim>\<open>catch\<close> appends the error issue to the issues pushed so far. The call for a child
  has its own \<^verbatim>\<open>try\<close>, so it always returns.
\<close>

fun analyzeAccessibility :: "settings \<Rightarrow> fills_prop list \<Rightarrow> node \<Rightarrow> issue list" where
  "analyzeAccessibility st up NullNode =
     (if \<not> accessibilityChecks st then []
      else [accessibilityErrorIssue (TypeError_in ''fills'')])"
| "analyzeAccessibility st up (Node p ch) =
     (if \<not> accessibilityChecks st then []
      else accessibilityOwnIssues up p @
           (case ch of
              NoChildren \<Rightarrow> []
            | Children cs \<Rightarrow> concat (map (analyzeAccessibility st (fills p # up)) cs)
            | BadChildren \<Rightarrow> [accessibilityErrorIssue (TypeError_not_iterable ''children'')]))"

section \<open>Heuristic rules (src/UXAudit/src/heuristics.ts)\<close>

text \<open>
  \<^verbatim>\<open>toLowerCase\<close> on the bytes of the UTF-8 encoding. An ASCII capital letter (code 65
  to 90) gets bit 5 set, which adds 32; so does the second byte of a capital letter of
  Latin-1 (U+00C0 to U+00DE without the multiplication sign U+00D7: bytes C3 80 to C3 9E
  without C3 97). Two letters outside ASCII have a lower case that holds an ASCII letter:
  the capital I with dot above (U+0130, bytes C4 B0) becomes i followed by the combining
  dot U+0307 (bytes CC 87), and the Kelvin sign (U+212A, bytes E2 84 AA) becomes k. The
  case of the other letters is not modelled: they stay as they are. The tests of the checks
  look for ASCII needles, and for one needle that starts with the capital letter U+00C3,
  in the lower-cased name, so for a name in UTF-8 they do not depend on those letters.
  \<^verbatim>\<open>includes\<close> is substring search.
\<close>

definition toLowerChar :: "char \<Rightarrow> char" where
  "toLowerChar c =
     (if (65::nat) \<le> of_char c \<and> of_char c \<le> (90::nat)
      then (case c of Char b0 b1 b2 b3 b4 b5 b6 b7 \<Rightarrow> Char b0 b1 b2 b3 b4 True b6 b7)
      else c)"

definition toLowerLatin1 :: "char \<Rightarrow> char" where
  "toLowerLatin1 d =
     (if (128::nat) \<le> of_char d \<and> of_char d \<le> (158::nat) \<and> of_char d \<noteq> (151::nat)
      then (case d of Char b0 b1 b2 b3 b4 b5 b6 b7 \<Rightarrow> Char b0 b1 b2 b3 b4 True b6 b7)
      else d)"

fun toLowerCase :: "string \<Rightarrow> string" where
  "toLowerCase [] = []"
| "toLowerCase (c # cs) =
     (case cs of
        [] \<Rightarrow> [toLowerChar c]
      | d # ds \<Rightarrow>
          (if c = CHR 0xC3 then c # toLowerLatin1 d # toLowerCase ds
           else if c = CHR 0xC4 \<and> d = CHR 0xB0 then
             CHR ''i'' # CHR 0xCC # CHR 0x87 # toLowerCase ds
           else
             (case ds of
                [] \<Rightarrow> toLowerChar c # toLowerCase cs
              | e # es \<Rightarrow>
                  (if c = CHR 0xE2 \<and> d = CHR 0x84 \<and> e = CHR 0xAA then
                     CHR ''k'' # toLowerCase es
                   else toLowerChar c # toLowerCase cs))))"

fun js_includes :: "string \<Rightarrow> string \<Rightarrow> bool" where
  "js_includes [] sub = (sub = [])"
| "js_includes (c # cs) sub = (startsWith (c # cs) sub \<or> js_includes cs sub)"

definition nameHas :: "props \<Rightarrow> string \<Rightarrow> bool" where
  "nameHas p sub = js_includes (toLowerCase (node_name p)) sub"

text \<open>
  \<^verbatim>\<open>children.some(callback)\<close> where the callback reads a property of the child: it
  stops at the first child that satisfies it and throws at a \<^verbatim>\<open>null\<close> child reached
  before (\<open>None\<close>). \<open>someOther\<close> is the same for callbacks of the form
  \<^verbatim>\<open>child !== node && ...\<close>, the node itself being the child at the given index.
\<close>

fun someNode :: "(props \<Rightarrow> bool) \<Rightarrow> node list \<Rightarrow> bool option" where
  "someNode P [] = Some False"
| "someNode P (NullNode # cs) = None"
| "someNode P (Node q ch # cs) = (if P q then Some True else someNode P cs)"

fun someOther :: "(props \<Rightarrow> bool) \<Rightarrow> nat \<Rightarrow> node list \<Rightarrow> bool option" where
  "someOther P i [] = Some False"
| "someOther P 0 (c # cs) = someNode P cs"
| "someOther P (Suc i) (NullNode # cs) = None"
| "someOther P (Suc i) (Node q ch # cs) = (if P q then Some True else someOther P i cs)"

fun nodeProps :: "node \<Rightarrow> props option" where
  "nodeProps NullNode = None"
| "nodeProps (Node q ch) = Some q"

text \<open>A \<^verbatim>\<open>Set\<close> in insertion order, and \<^verbatim>\<open>Array.join\<close> of a set of numbers.\<close>

definition setAdd :: "'a list \<Rightarrow> 'a \<Rightarrow> 'a list" where
  "setAdd xs v = (if v \<in> set xs then xs else xs @ [v])"

fun joinNums :: "int list \<Rightarrow> frag list" where
  "joinNums [] = []"
| "joinNums [v] = [Num (real_of_int v)]"
| "joinNums (v # w # vs) = Num (real_of_int v) # Lit '', '' # joinNums (w # vs)"

text \<open>The \<^verbatim>\<open>for (let i = 1; ...)\<close> loop of \<^verbatim>\<open>checkConsistency\<close> over the sorted children.\<close>

fun spacingsLoop :: "int list \<Rightarrow> props list \<Rightarrow> int list" where
  "spacingsLoop spacings (prevNode # currNode # rest) =
     (let spacing = node_x currNode - (node_x prevNode + node_width prevNode)
      in spacingsLoop (if spacing > 0 then setAdd spacings (js_round spacing) else spacings)
           (currNode # rest))"
| "spacingsLoop spacings rest = spacings"

definition isContainerKind :: "props \<Rightarrow> bool" where
  "isContainerKind p =
     (kind p = FRAME \<or> kind p = GROUP \<or> kind p = COMPONENT \<or> kind p = INSTANCE)"

text \<open>
  Each check is wrapped in its own \<^verbatim>\<open>try\<close>/\<^verbatim>\<open>catch\<close> that only logs. For each check
  the definition with the suffix \<open>_try\<close> is the body of its \<^verbatim>\<open>try\<close> block: it throws
  (\<open>Inl\<close>) at a \<^verbatim>\<open>null\<close> child met by the comparator, by \<^verbatim>\<open>some\<close> or by
  \<^verbatim>\<open>filter\<close>, and where \<^verbatim>\<open>some\<close> or \<^verbatim>\<open>filter\<close> is missing on a \<^verbatim>\<open>children\<close> that is
  not an array; otherwise it gives the issues it pushes (\<open>Inr\<close>). No body pushes an
  issue before an operation that can throw. The check itself adds the \<^verbatim>\<open>catch\<close>
  block, which ends the check without an issue. The comparator \<^verbatim>\<open>a.x - b.x\<close> with the
  stable \<^verbatim>\<open>Array.prototype.sort\<close> is a stable sort on \<^verbatim>\<open>x\<close>; it is called on every
  element of an array of more than two, so it throws when one of them is \<^verbatim>\<open>null\<close>. The
  fourth needle of the close-button test is given by its five bytes in the source file.
\<close>

definition checkConsistency_try :: "props \<Rightarrow> node children_prop \<Rightarrow> js_error + issue list" where
  "checkConsistency_try p ch =
     (case ch of
        Children cs \<Rightarrow>
          (if length cs > 2 \<and> isContainerKind p then
             (case those (map nodeProps cs) of
                None \<Rightarrow> Inl (TypeError_in ''x'')
              | Some qs \<Rightarrow>
                  (let sortedByX = sort_key node_x qs;
                       spacings = spacingsLoop [] sortedByX
                   in if length spacings > 2 then
                        Inr [\<lparr>itype = Heuristic, severity = SevInfo, title = ''Inconsistent spacing'',
                          description =
                            [Lit ''Multiple different spacing values detected between elements (''] @
                            joinNums spacings @ [Lit ''px)''],
                          remediation = Some [Lit ''Use consistent spacing between elements to improve visual harmony and predictability.''],
                          element = Some (node_name p)\<rparr>]
                      else Inr []))
           else Inr [])
      | _ \<Rightarrow> Inr [])"

definition checkConsistency :: "props \<Rightarrow> node children_prop \<Rightarrow> issue list" where
  "checkConsistency p ch =
     (case checkConsistency_try p ch of Inl err \<Rightarrow> [] | Inr pushed \<Rightarrow> pushed)"

definition checkVisibilityOfSystemStatus_try ::
  "props \<Rightarrow> node children_prop \<Rightarrow> js_error + issue list" where
  "checkVisibilityOfSystemStatus_try p ch =
     (if nameHas p ''form'' then
        (case ch of
           Children cs \<Rightarrow>
             (case someNode (\<lambda>q. nameHas q ''input'' \<or> nameHas q ''field''
                                  \<or> nameHas q ''text'') cs of
                None \<Rightarrow> Inl (TypeError_property ''name'')
              | Some hasInputs \<Rightarrow>
                  (case someNode (\<lambda>q. nameHas q ''status'' \<or> nameHas q ''feedback''
                                       \<or> nameHas q ''error'' \<or> nameHas q ''success'') cs of
                     None \<Rightarrow> Inl (TypeError_property ''name'')
                   | Some hasFeedback \<Rightarrow>
                       (if hasInputs \<and> \<not> hasFeedback then
                          Inr [\<lparr>itype = Heuristic, severity = SevInfo,
                            title = ''Missing feedback mechanism'',
                            description = [Lit ''Form appears to lack visual feedback elements for user actions''],
                            remediation = Some [Lit ''Add visual feedback elements to indicate form status, validation results, or submission progress.''],
                            element = Some (node_name p)\<rparr>]
                        else Inr [])))
         | BadChildren \<Rightarrow> Inl (TypeError_not_function ''some'')
         | NoChildren \<Rightarrow> Inr [])
      else Inr [])"

definition checkVisibilityOfSystemStatus :: "props \<Rightarrow> node children_prop \<Rightarrow> issue list" where
  "checkVisibilityOfSystemStatus p ch =
     (case checkVisibilityOfSystemStatus_try p ch of Inl err \<Rightarrow> [] | Inr pushed \<Rightarrow> pushed)"

definition checkUserControlAndFreedom_try ::
  "props \<Rightarrow> node children_prop \<Rightarrow> js_error + issue list" where
  "checkUserControlAndFreedom_try p ch =
     (if nameHas p ''modal'' \<or> nameHas p ''dialog'' \<or> nameHas p ''popup'' then
        (case ch of
           Children cs \<Rightarrow>
             (case someNode (\<lambda>q. nameHas q ''close'' \<or> nameHas q ''cancel''
                                  \<or> nameHas q ''dismiss''
                                  \<or> nameHas q [CHR 0xC3, CHR 0x83, CHR 0xE2, CHR 0x80, CHR 0x94]
                                  \<or> nameHas q ''x'') cs of
                None \<Rightarrow> Inl (TypeError_property ''name'')
              | Some hasCloseButton \<Rightarrow>
                  (if \<not> hasCloseButton then
                     Inr [\<lparr>itype = Heuristic, severity = SevWarning, title = ''Missing close option'',
                       description = [Lit ''Modal/dialog appears to lack a visible close or cancel option''],
                       remediation = Some [Lit ''Add a clearly visible close button to allow users to exit the modal/dialog easily.''],
                       element = Some (node_name p)\<rparr>]
                   else Inr []))
         | BadChildren \<Rightarrow> Inl (TypeError_not_function ''some'')
         | NoChildren \<Rightarrow> Inr [])
      else Inr [])"

definition checkUserControlAndFreedom :: "props \<Rightarrow> node children_prop \<Rightarrow> issue list" where
  "checkUserControlAndFreedom p ch =
     (case checkUserControlAndFreedom_try p ch of Inl err \<Rightarrow> [] | Inr pushed \<Rightarrow> pushed)"

text \<open>
  The next two checks look at the siblings: the second argument is
  \<^verbatim>\<open>node.parent.children\<close> with the index of the node in it, or \<open>None\<close> when the
  node has no parent. The conditions keep the source's operator precedence:
  \<^verbatim>\<open>(a && b) || c\<close>. A \<^verbatim>\<open>null\<close> sibling met by \<^verbatim>\<open>some\<close> makes the callback throw, at
  \<^verbatim>\<open>child.name\<close> in the first check and at \<^verbatim>\<open>child.type\<close> in the second.
\<close>

definition checkErrorPrevention_try ::
  "props \<Rightarrow> (node list \<times> nat) option \<Rightarrow> js_error + issue list" where
  "checkErrorPrevention_try p par =
     (if ((nameHas p ''delete'' \<or> nameHas p ''remove'' \<or> nameHas p ''destroy'')
            \<and> kind p = INSTANCE) \<or> kind p = COMPONENT then
        (case (case par of
                 None \<Rightarrow> Some False
               | Some (siblings, i) \<Rightarrow>
                   someOther (\<lambda>q. nameHas q ''confirm'' \<or> nameHas q ''verification''
                                    \<or> nameHas q ''are you sure'') i siblings) of
           None \<Rightarrow> Inl (TypeError_property ''name'')
         | Some hasConfirmation \<Rightarrow>
             (if \<not> hasConfirmation then
                Inr [\<lparr>itype = Heuristic, severity = SevWarning,
                  title = ''Destructive action without confirmation'',
                  description = [Lit ''Delete/remove action appears to lack confirmation step''],
                  remediation = Some [Lit ''Add a confirmation step before executing destructive actions to prevent accidental data loss.''],
                  element = Some (node_name p)\<rparr>]
              else Inr []))
      else Inr [])"

definition checkErrorPrevention :: "props \<Rightarrow> (node list \<times> nat) option \<Rightarrow> issue list" where
  "checkErrorPrevention p par =
     (case checkErrorPrevention_try p par of Inl err \<Rightarrow> [] | Inr pushed \<Rightarrow> pushed)"

definition checkRecognitionOverRecall_try ::
  "props \<Rightarrow> (node list \<times> nat) option \<Rightarrow> js_error + issue list" where
  "checkRecognitionOverRecall_try p par =
     (if ((nameHas p ''input'' \<or> nameHas p ''field'' \<or> nameHas p ''textbox'')
            \<and> kind p = INSTANCE) \<or> kind p = COMPONENT \<or> kind p = RECTANGLE then
        (case (case par of
                 None \<Rightarrow> Some False
               | Some (siblings, i) \<Rightarrow>
                   someOther (\<lambda>q. kind q = TEXT \<or> nameHas q ''label'') i siblings) of
           None \<Rightarrow> Inl (TypeError_property ''type'')
         | Some hasLabel \<Rightarrow>
             (if \<not> hasLabel then
                Inr [\<lparr>itype = Heuristic, severity = SevWarning, title = ''Missing input label'',
                  description = [Lit ''Input field appears to lack a visible label''],
                  remediation = Some [Lit ''Add clear, visible labels to all input fields to help users understand what information is required.''],
                  element = Some (node_name p)\<rparr>]
              else Inr []))
      else Inr [])"

definition checkRecognitionOverRecall :: "props \<Rightarrow> (node list \<times> nat) option \<Rightarrow> issue list" where
  "checkRecognitionOverRecall p par =
     (case checkRecognitionOverRecall_try p par of Inl err \<Rightarrow> [] | Inr pushed \<Rightarrow> pushed)"

text \<open>
  \<^verbatim>\<open>characters.length\<close> counts UTF-16 code units. A text is held here as the bytes of
  its UTF-8 encoding: a byte below 0x80 or a lead byte of a sequence of two or three bytes
  stands for one unit, the lead byte of a sequence of four for two, a continuation byte
  for none.
\<close>

definition utf16Units :: "char \<Rightarrow> nat" where
  "utf16Units c =
     (if (of_char c :: nat) < 128 then 1
      else if (of_char c :: nat) < 192 then 0
      else if (of_char c :: nat) < 240 then 1
      else 2)"

definition utf16Length :: "string \<Rightarrow> nat" where
  "utf16Length s = sum_list (map utf16Units s)"

definition checkAestheticAndMinimalistDesign_try ::
  "props \<Rightarrow> node children_prop \<Rightarrow> js_error + issue list" where
  "checkAestheticAndMinimalistDesign_try p ch =
     (if isContainerKind p then
        (case ch of
           Children cs \<Rightarrow>
             (case those (map nodeProps cs) of
                None \<Rightarrow> Inl (TypeError_property ''type'')
              | Some qs \<Rightarrow>
                  (let textNodes = filter (\<lambda>q. kind q = TEXT) qs;
                       totalCharacters = sum_list (map (\<lambda>q. utf16Length (characters q)) textNodes)
                   in if length textNodes > 5 \<and> totalCharacters > 500 then
                        Inr [\<lparr>itype = Heuristic, severity = SevInfo, title = ''Text-heavy interface'',
                          description = [Lit ''Interface contains '', Num (real (length textNodes)),
                                         Lit '' text elements with approximately '',
                                         Num (real totalCharacters), Lit '' characters''],
                          remediation = Some [Lit ''Consider simplifying the interface by reducing text content or breaking it into multiple screens/sections.''],
                          element = Some (node_name p)\<rparr>]
                      else Inr []))
         | BadChildren \<Rightarrow> Inl (TypeError_not_function ''filter'')
         | NoChildren \<Rightarrow> Inr [])
      else Inr [])"

definition checkAestheticAndMinimalistDesign :: "props \<Rightarrow> node children_prop \<Rightarrow> issue list" where
  "checkAestheticAndMinimalistDesign p ch =
     (case checkAestheticAndMinimalistDesign_try p ch of Inl err \<Rightarrow> [] | Inr pushed \<Rightarrow> pushed)"

definition heuristicErrorIssue :: "js_error \<Rightarrow> issue" where
  "heuristicErrorIssue err =
     \<lparr>itype = Heuristic, severity = SevError, title = ''Heuristic analysis error'',
      description = [Lit ''Error analyzing heuristics: '', Message err],
      remediation = None, element = None\<rparr>"

text \<open>The six checks \<^verbatim>\<open>analyzeHeuristics\<close> runs on the node itself, in order.\<close>

definition heuristicOwnIssues ::
  "props \<Rightarrow> node children_prop \<Rightarrow> (node list \<times> nat) option \<Rightarrow> issue list" where
  "heuristicOwnIssues p ch par =
     checkConsistency p ch @ checkVisibilityOfSystemStatus p ch
     @ checkUserControlAndFreedom p ch @ checkErrorPrevention p par
     @ checkRecognitionOverRecall p par @ checkAestheticAndMinimalistDesign p ch"

text \<open>
  \<^verbatim>\<open>analyzeHeuristics\<close>. On a \<^verbatim>\<open>null\<close> node each of the six checks throws inside its
  own \<^verbatim>\<open>try\<close> and logs; the first exception outside them is \<^verbatim>\<open>'children' in node\<close>.
\<close>

function analyzeHeuristics :: "settings \<Rightarrow> (node list \<times> nat) option \<Rightarrow> node \<Rightarrow> issue list" where
  "analyzeHeuristics st par NullNode =
     (if \<not> heuristicChecks st then []
      else [heuristicErrorIssue (TypeError_in ''children'')])"
| "analyzeHeuristics st par (Node p ch) =
     (if \<not> heuristicChecks st then []
      else heuristicOwnIssues p ch par @
           (case ch of
              NoChildren \<Rightarrow> []
            | Children cs \<Rightarrow>
                concat (map (\<lambda>(i, c). analyzeHeuristics st (Some (cs, i)) c)
                          (zip [0..<length cs] cs))
            | BadChildren \<Rightarrow> [heuristicErrorIssue (TypeError_not_iterable ''children'')]))"
  by pat_completeness auto

termination analyzeHeuristics
proof (relation "measure (\<lambda>(st, par, nd). size nd)", goal_cases)
  case 1
  show ?case by simp
next
  case (2 st par p ch cs ic i c)
  from 2 have "c \<in> set cs"
    by (auto dest: set_zip_rightD)
  then have "size c < Suc (size_list size cs)"
    by (simp add: less_Suc_eq_le size_list_estimation')
  with 2 show ?case by simp
qed

section \<open>Frame audit (the frame audit module, src/unnamed/part_003)\<close>

text \<open>
  \<^verbatim>\<open>analyzeFrame\<close>; the ancestors' fills and the siblings of the audited node are the
  context the host's tree supplies through \<^verbatim>\<open>node.parent\<close>. Neither analysis throws,
  so the \<^verbatim>\<open>catch\<close> of \<^verbatim>\<open>analyzeFrame\<close> is never entered.
\<close>

definition analyzeFrame ::
  "fills_prop list \<Rightarrow> (node list \<times> nat) option \<Rightarrow> node \<Rightarrow> settings \<Rightarrow> audit_result" where
  "analyzeFrame up par nd st =
     (let accessibilityIssues = analyzeAccessibility st up nd;
          heuristicIssues = analyzeHeuristics st par nd;
          allIssues = accessibilityIssues @ heuristicIssues;
          accessibilityScore = calculateAccessibilityScore accessibilityIssues;
          heuristicsScore = calculateHeuristicsScore heuristicIssues;
          overallScore = accessibilityScore;
          divisor = (1::int);
          overallScore = (if heuristicChecks st then overallScore + heuristicsScore
                          else overallScore);
          divisor = (if heuristicChecks st then divisor + 1 else divisor);
          overallScore = js_round (real_of_int overallScore / real_of_int divisor)
      in \<lparr>accessibility = accessibilityScore,
          heuristics = (if heuristicChecks st then Some heuristicsScore else None),
          seo = None,
          performance = None,
          overall = overallScore,
          issues = allIssues\<rparr>)"

section \<open>The plugin's own frame audit (src/UXAudit/src/code.ts, src/src/utils.ts)\<close>

definition getRGB :: "color \<Rightarrow> color" where
  "getRGB c = Color (cr c) (cg c) (cb c)"

definition sRGB :: "real \<Rightarrow> real" where
  "sRGB c0 =
     (let c = c0 / 255
      in if c \<le> 0.03928 then c / 12.92 else ((c + 0.055) / 1.055) powr 2.4)"

definition relativeLuminance :: "color \<Rightarrow> real" where
  "relativeLuminance rgb =
     (let R = sRGB (cr rgb * 255);
          G = sRGB (cg rgb * 255);
          B = sRGB (cb rgb * 255)
      in 0.2126 * R + 0.7152 * G + 0.0722 * B)"

definition contrastRatio :: "real \<Rightarrow> real \<Rightarrow> real" where
  "contrastRatio lum1 lum2 =
     (let lighter = max lum1 lum2;
          darker = min lum1 lum2
      in (lighter + 0.05) / (darker + 0.05))"

text \<open>
  \<^verbatim>\<open>findbackground\<close> reads only \<^verbatim>\<open>node.parent.fills\<close>: the argument is the fills of
  the parent, \<open>None\<close> for a node without parent. It looks at the first fill of the
  parent and at nothing else; \<^verbatim>\<open>parent.fills[0].type\<close> throws on a \<^verbatim>\<open>null\<close> entry.
\<close>

definition findbackground :: "fills_prop option \<Rightarrow> js_error + paint" where
  "findbackground parentFills =
     (case parentFills of
        Some (FillsArray (backgroundFill # rest)) \<Rightarrow>
          (case backgroundFill of
             NullPaint \<Rightarrow> Inl (TypeError_property ''type'')
           | Solid v c \<Rightarrow> Inr (Solid v c)
           | NonSolid v \<Rightarrow> Inr (Solid True (Some (Color 1 1 1))))
      | _ \<Rightarrow> Inr (Solid True (Some (Color 1 1 1))))"

text \<open>
  \<^verbatim>\<open>frame.findAll(...)\<close> visits the descendants of the frame in document order; each is
  paired with its parent, which \<^verbatim>\<open>findbackground\<close> reaches through \<^verbatim>\<open>node.parent\<close>.
\<close>

fun findAllWithParent :: "node \<Rightarrow> (props \<times> props) list" where
  "findAllWithParent NullNode = []"
| "findAllWithParent (Node p ch) =
     (case ch of
        Children cs \<Rightarrow>
          concat (map (\<lambda>c. (case c of NullNode \<Rightarrow> [] | Node q qch \<Rightarrow> [(p, q)])
                             @ findAllWithParent c) cs)
      | _ \<Rightarrow> [])"

definition textNodesOf :: "node \<Rightarrow> (props \<times> props) list" where
  "textNodesOf frame = filter (\<lambda>pq. kind (snd pq) = TEXT) (findAllWithParent frame)"

text \<open>
  The body of the colour-contrast loop of \<^verbatim>\<open>auditFrame\<close> for one text node: \<open>Inr None\<close>
  is \<^verbatim>\<open>continue\<close> or a sufficient contrast, \<open>Inr (Some s)\<close> the string pushed to
  \<^verbatim>\<open>contrastIssues\<close>. There is no \<^verbatim>\<open>try\<close> here: an exception leaves \<^verbatim>\<open>auditFrame\<close>.
\<close>

definition contrastEntry :: "props \<Rightarrow> props \<Rightarrow> js_error + frag list option" where
  "contrastEntry parent nd =
     (case fills nd of
        FillsArray (f # rest) \<Rightarrow>
          (case f of
             NullPaint \<Rightarrow> Inl (TypeError_property ''type'')
           | NonSolid v \<Rightarrow> Inr None
           | Solid v None \<Rightarrow> Inl (TypeError_property ''r'')
           | Solid v (Some textColor) \<Rightarrow>
               (let textLuminance = relativeLuminance (getRGB textColor)
                in case findbackground (Some (fills parent)) of
                     Inl err \<Rightarrow> Inl err
                   | Inr (Solid bv None) \<Rightarrow> Inl (TypeError_property ''r'')
                   | Inr (Solid bv (Some bgColor)) \<Rightarrow>
                       (let backgroundLuminance = relativeLuminance (getRGB bgColor);
                            contrast = contrastRatio textLuminance backgroundLuminance
                        in if contrast < 4.5 then
                             Inr (Some [Lit [CHR 0x22], Lit (characters nd),
                                        Lit ([CHR 0x22] @ '' (contrast: ''),
                                        ToFixed2 contrast, Lit '':1)''])
                           else Inr None)
                   | Inr other \<Rightarrow> Inr None))
      | _ \<Rightarrow> Inr None)"

fun contrastLoop :: "frag list list \<Rightarrow> (props \<times> props) list \<Rightarrow> js_error + frag list list" where
  "contrastLoop contrastIssues [] = Inr contrastIssues"
| "contrastLoop contrastIssues ((parent, nd) # rest) =
     (case contrastEntry parent nd of
        Inl err \<Rightarrow> Inl err
      | Inr None \<Rightarrow> contrastLoop contrastIssues rest
      | Inr (Some s) \<Rightarrow> contrastLoop (contrastIssues @ [s]) rest)"

definition auditFrame_contrastIssues :: "node \<Rightarrow> js_error + frag list list" where
  "auditFrame_contrastIssues frame = contrastLoop [] (textNodesOf frame)"

text \<open>
  The jargon check of \<^verbatim>\<open>auditFrame\<close>. \<^verbatim>\<open>split(/\s+/)\<close> cuts at every run of
  white space and yields an empty first or last word when
  the text starts or ends with white space; \<^verbatim>\<open>replace(/[^a-zA-Z]/g, '')\<close> keeps the
  letters; the word pushed is the lower-cased word as split, not the stripped one;
  \<^verbatim>\<open>Array.from(new Set(...))\<close> keeps the first occurrence of each word.
\<close>

definition jargon :: "string list" where
  "jargon = [''syscall'', ''backend'', ''cache'', ''API'', ''lambda'', ''framework'', ''async'']"

definition isSpace :: "char \<Rightarrow> bool" where
  "isSpace c = (of_char c = (32::nat) \<or> ((9::nat) \<le> of_char c \<and> of_char c \<le> (13::nat)))"

definition isLetter :: "char \<Rightarrow> bool" where
  "isLetter c =
     (((97::nat) \<le> of_char c \<and> of_char c \<le> (122::nat))
      \<or> ((65::nat) \<le> of_char c \<and> of_char c \<le> (90::nat)))"

text \<open>
  \<^verbatim>\<open>split(/\s+/)\<close>. The class \<^verbatim>\<open>\s\<close> holds the ASCII white space (\<open>isSpace\<close>) and,
  outside ASCII, U+00A0, U+1680, U+2000 to U+200A, U+2028, U+2029, U+202F, U+205F, U+3000
  and U+FEFF, here by the bytes of their encodings. \<open>spaceAt\<close> is the number of bytes
  of the white space character at the head of a text, 0 when there is none;
  \<open>splitSpaces\<close> passes over the remaining bytes of such a character.
\<close>

definition whiteSpaceBytes :: "string list" where
  "whiteSpaceBytes =
     [[CHR 0xC2, CHR 0xA0], [CHR 0xE1, CHR 0x9A, CHR 0x80],
      [CHR 0xE2, CHR 0x80, CHR 0x80], [CHR 0xE2, CHR 0x80, CHR 0x81],
      [CHR 0xE2, CHR 0x80, CHR 0x82], [CHR 0xE2, CHR 0x80, CHR 0x83],
      [CHR 0xE2, CHR 0x80, CHR 0x84], [CHR 0xE2, CHR 0x80, CHR 0x85],
      [CHR 0xE2, CHR 0x80, CHR 0x86], [CHR 0xE2, CHR 0x80, CHR 0x87],
      [CHR 0xE2, CHR 0x80, CHR 0x88], [CHR 0xE2, CHR 0x80, CHR 0x89],
      [CHR 0xE2, CHR 0x80, CHR 0x8A], [CHR 0xE2, CHR 0x80, CHR 0xA8],
      [CHR 0xE2, CHR 0x80, CHR 0xA9], [CHR 0xE2, CHR 0x80, CHR 0xAF],
      [CHR 0xE2, CHR 0x81, CHR 0x9F], [CHR 0xE3, CHR 0x80, CHR 0x80],
      [CHR 0xEF, CHR 0xBB, CHR 0xBF]]"

definition spaceAt :: "string \<Rightarrow> nat" where
  "spaceAt s =
     (case s of
        [] \<Rightarrow> 0
      | c # cs \<Rightarrow>
          if isSpace c then 1
          else if (of_char c :: nat) < 128 then 0
          else (case find (startsWith s) whiteSpaceBytes of
                  Some w \<Rightarrow> length w
                | None \<Rightarrow> 0))"

fun splitSpaces :: "nat \<Rightarrow> bool \<Rightarrow> string \<Rightarrow> string \<Rightarrow> string list" where
  "splitSpaces pending inRun word [] = [rev word]"
| "splitSpaces (Suc pending) inRun word (c # cs) = splitSpaces pending inRun word cs"
| "splitSpaces 0 inRun word (c # cs) =
     (if spaceAt (c # cs) > 0 then
        (if inRun then splitSpaces (spaceAt (c # cs) - 1) True word cs
         else rev word # splitSpaces (spaceAt (c # cs) - 1) True [] cs)
      else splitSpaces 0 False (c # word) cs)"

definition splitWhitespace :: "string \<Rightarrow> string list" where
  "splitWhitespace s = splitSpaces 0 False [] s"

definition jargonWords :: "string \<Rightarrow> string list" where
  "jargonWords chars =
     filter (\<lambda>word. filter isLetter word \<in> set jargon)
       (splitWhitespace (toLowerCase chars))"

definition foundJargon :: "string list \<Rightarrow> string list" where
  "foundJargon texts = concat (map jargonWords texts)"

definition uniqueJargon :: "string list \<Rightarrow> string list" where
  "uniqueJargon found = foldl setAdd [] found"

definition auditFrame_jargon :: "node \<Rightarrow> string list" where
  "auditFrame_jargon frame =
     uniqueJargon (foundJargon (map (\<lambda>pq. characters (snd pq)) (textNodesOf frame)))"

section \<open>Website audit (code.ts, lighthouse.ts, and the website audit module at the end of src/unnamed/part_002)\<close>

text \<open>
  The remote scoring service is a function from requests to replies; every function that
  may call it returns the requests it issued together with its outcome, so that
  ``no remote call'' is an empty list of requests. A reply is a network failure or a
  response with its \<^verbatim>\<open>ok\<close> flag, its status text and its JSON body, which is an error
  object or a report. A rejected promise is \<open>Thrown\<close> with the error's message.
\<close>

record request =
  req_url :: string
  req_strategy :: "string option"
  req_categories :: "string list"
  req_key :: "string option"

datatype payload = ApiError "string option" | Report lighthouse_result

datatype remote_reply = NetworkError string | Reply bool string payload

datatype 'a outcome = Returned 'a | Thrown "frag list"

datatype website_report =
    DetailedReport "frag list" "frag list" "frag list" string
  | BasicReport int int int string

text \<open>
  \<^verbatim>\<open>performDetailedWebsiteAudit\<close> (code.ts) returns the three scores as texts
  \<^verbatim>\<open>Score: n/100\<close> in the order seo, accessibility, performance, and a note. It reads
  \<^verbatim>\<open>categories.accessibility.score || 0\<close> without a guard: a \<^verbatim>\<open>null\<close> score counts
  as 0, a missing category throws, and the \<^verbatim>\<open>catch\<close> wraps the exception like any
  other.
\<close>

definition scoreText :: "(real \<Rightarrow> int) \<Rightarrow> category_score \<Rightarrow> frag list" where
  "scoreText round100 c =
     [Lit ''Score: '', Num (real_of_int (categoryPercent round100 c)), Lit ''/100'']"

definition performDetailedWebsiteAudit ::
  "(real \<Rightarrow> int) \<Rightarrow> (request \<Rightarrow> remote_reply) \<Rightarrow> string \<Rightarrow> string
     \<Rightarrow> request list \<times> website_report outcome" where
  "performDetailedWebsiteAudit round100 remote url apiKey =
     (let rq = \<lparr>req_url = url, req_strategy = None,
                req_categories = [''ACCESSIBILITY'', ''SEO'', ''PERFORMANCE''],
                req_key = Some apiKey\<rparr>
      in ([rq],
          (case remote rq of
             NetworkError msg \<Rightarrow> Thrown [Lit ''Error fetching audit from Google: '', Lit msg]
           | Reply ok status (ApiError m) \<Rightarrow>
               Thrown [Lit ''Error fetching audit from Google: '',
                       Lit (case m of Some msg \<Rightarrow> (if msg = [] then ''API Error'' else msg)
                                    | None \<Rightarrow> ''API Error'')]
           | Reply ok status (Report d) \<Rightarrow>
               (if cat_accessibility d = NoCategory \<or> cat_seo d = NoCategory
                   \<or> cat_performance d = NoCategory then
                  Thrown [Lit ''Error fetching audit from Google: '',
                          Message (TypeError_property ''score'')]
                else
                  Returned (DetailedReport (scoreText round100 (cat_seo d))
                              (scoreText round100 (cat_accessibility d))
                              (scoreText round100 (cat_performance d))
                              ''Detailed analysis using Google PageSpeed Insights'')))))"

definition performBasicWebsiteAudit :: website_report where
  "performBasicWebsiteAudit =
     BasicReport 85 90 75
       ''Basic audit complete. For more details, add a Google PageSpeed API key in settings.''"

definition auditWebsite ::
  "(real \<Rightarrow> int) \<Rightarrow> (request \<Rightarrow> remote_reply) \<Rightarrow> string \<Rightarrow> settings
     \<Rightarrow> request list \<times> website_report outcome" where
  "auditWebsite round100 remote url st =
     (if lighthouseApiKey st \<noteq> [] then
        (case performDetailedWebsiteAudit round100 remote url (lighthouseApiKey st) of
           (sent, Thrown msg) \<Rightarrow> (sent, Thrown (Lit ''Failed to audit website: '' # msg))
         | (sent, Returned r) \<Rightarrow> (sent, Returned r))
      else ([], Returned performBasicWebsiteAudit))"

text \<open>
  \<^verbatim>\<open>runLighthouseAudit\<close> (lighthouse.ts) asks for the enabled categories and always for
  best-practices, adds the key only when there is one, and sends the request in either
  case. A body without \<^verbatim>\<open>categories\<close> makes \<^verbatim>\<open>processLighthouseResults\<close> throw.
\<close>

definition runLighthouseAudit ::
  "(real \<Rightarrow> int) \<Rightarrow> (request \<Rightarrow> remote_reply) \<Rightarrow> string \<Rightarrow> settings
     \<Rightarrow> request list \<times> audit_result outcome" where
  "runLighthouseAudit round100 remote url st =
     (let categories = (if accessibilityChecks st then [''accessibility''] else [])
                       @ (if seoChecks st then [''seo''] else [])
                       @ (if performanceChecks st then [''performance''] else [])
                       @ [''best-practices''];
          rq = \<lparr>req_url = url, req_strategy = Some ''mobile'', req_categories = categories,
                req_key = (if lighthouseApiKey st \<noteq> [] then Some (lighthouseApiKey st)
                           else None)\<rparr>
      in ([rq],
          (case remote rq of
             NetworkError msg \<Rightarrow> Thrown [Lit ''Failed to run Lighthouse audit: '', Lit msg]
           | Reply ok status body \<Rightarrow>
               (if \<not> ok then
                  Thrown [Lit ''Failed to run Lighthouse audit: '',
                          Lit ''Lighthouse API error: '', Lit status]
                else case body of
                       Report d \<Rightarrow> Returned (processLighthouseResults round100 d st)
                     | ApiError m \<Rightarrow>
                         Thrown [Lit ''Failed to run Lighthouse audit: '',
                                 Message (TypeError_property ''accessibility'')]))))"

text \<open>
  \<^verbatim>\<open>analyzeWebsite\<close> (website audit module): the remote audit first, the fallback when
  it throws.
\<close>

definition analyzeWebsite ::
  "(real \<Rightarrow> int) \<Rightarrow> (request \<Rightarrow> remote_reply) \<Rightarrow> string \<Rightarrow> settings
     \<Rightarrow> request list \<times> audit_result outcome" where
  "analyzeWebsite round100 remote url st =
     (case runLighthouseAudit round100 remote url st of
        (sent, Returned r) \<Rightarrow> (sent, Returned r)
      | (sent, Thrown msg) \<Rightarrow> (sent, Returned (runFallbackAudit url st)))"

section \<open>Settings (code.ts, and the settings module, src/unnamed/part_001)\<close>

text \<open>
  Settings are stored as JSON text and come back from \<^verbatim>\<open>JSON.parse\<close> as whatever the
  text holds, so a loaded settings value is a JSON value and a settings object is the list
  of its own properties in order; reading a property that is not there gives
  \<^verbatim>\<open>undefined\<close> (\<open>None\<close>). What the storage holds is nothing (or an empty string), a
  text that does not parse, or a text that parses to a JSON value.
\<close>

datatype json =
    JNull | JBool bool | JNum real | JStr string | JArr "json list"
  | JObj "(string \<times> json) list"

datatype stored_value = NothingStored | Unparsable | Parsable json

definition getProp :: "(string \<times> json) list \<Rightarrow> string \<Rightarrow> json option" where
  "getProp obj k = map_of obj k"

text \<open>
  An object enumerates its own properties with the array indices first (the canonical
  decimal numerals below 4294967295), in ascending order, and then the other keys in the
  order of their creation. Writing a property keeps a property that is there in its
  place and gives a new one its place in that order.
\<close>

definition isDigitChar :: "char \<Rightarrow> bool" where
  "isDigitChar c = ((48::nat) \<le> of_char c \<and> of_char c \<le> (57::nat))"

definition digitsValue :: "string \<Rightarrow> nat" where
  "digitsValue k = foldl (\<lambda>n c. 10 * n + (of_char c - 48)) 0 k"

definition isArrayIndex :: "string \<Rightarrow> bool" where
  "isArrayIndex k =
     (k \<noteq> [] \<and> list_all isDigitChar k \<and> (k = ''0'' \<or> hd k \<noteq> CHR ''0'')
      \<and> digitsValue k < 4294967295)"

fun setProp :: "(string \<times> json) list \<Rightarrow> string \<Rightarrow> json \<Rightarrow> (string \<times> json) list" where
  "setProp [] k v = [(k, v)]"
| "setProp ((k', v') # obj) k v =
     (if k' = k then (k', v) # obj
      else if isArrayIndex k
              \<and> (if isArrayIndex k' then digitsValue k < digitsValue k' else True)
      then (k, v) # (k', v') # obj
      else (k', v') # setProp obj k v)"

text \<open>
  The own enumerable properties \<^verbatim>\<open>Object.assign\<close> copies from a source: those of an
  object; the indices of an array or of the characters of a string; none of \<^verbatim>\<open>null\<close>,
  a boolean or a number.
\<close>

fun showDigits :: "nat \<Rightarrow> nat \<Rightarrow> string" where
  "showDigits 0 n = []"
| "showDigits (Suc fuel) n =
     (if n < 10 then [char_of (48 + n)]
      else showDigits fuel (n div 10) @ [char_of (48 + n mod 10)])"

definition indexKey :: "nat \<Rightarrow> string" where
  "indexKey n = showDigits (Suc n) n"

fun ownEntries :: "json \<Rightarrow> (string \<times> json) list" where
  "ownEntries (JObj kvs) = kvs"
| "ownEntries (JArr xs) = map (\<lambda>i. (indexKey i, xs ! i)) [0..<length xs]"
| "ownEntries (JStr s) = map (\<lambda>i. (indexKey i, JStr [s ! i])) [0..<length s]"
| "ownEntries _ = []"

definition objectAssign :: "(string \<times> json) list \<Rightarrow> json \<Rightarrow> (string \<times> json) list" where
  "objectAssign target src = foldl (\<lambda>obj kv. setProp obj (fst kv) (snd kv)) target (ownEntries src)"

definition defaultSettings :: "(string \<times> json) list" where
  "defaultSettings =
     [(''accessibilityChecks'', JBool True),
      (''heuristicChecks'', JBool True),
      (''seoChecks'', JBool True),
      (''performanceChecks'', JBool True),
      (''exportFormat'', JStr ''markdown''),
      (''includeScreenshots'', JBool False),
      (''includeRemediation'', JBool True),
      (''lighthouseApiKey'', JStr []),
      (''useAI'', JBool False)]"

text \<open>
  The \<^verbatim>\<open>load-settings\<close> branch of \<^verbatim>\<open>figma.ui.onmessage\<close> (code.ts): the new value of
  \<^verbatim>\<open>currentSettings\<close> and the settings posted to the UI, if any.
\<close>

definition onmessage_loadSettings ::
  "(string \<times> json) list \<Rightarrow> stored_value \<Rightarrow> (string \<times> json) list \<times> (string \<times> json) list option" where
  "onmessage_loadSettings currentSettings storedSettings =
     (case storedSettings of
        Parsable parsed \<Rightarrow>
          (let loaded = objectAssign (objectAssign [] (JObj defaultSettings)) parsed
           in (loaded, Some loaded))
      | _ \<Rightarrow> (currentSettings, None))"

text \<open>
  \<^verbatim>\<open>loadSettings\<close> (settings module): \<^verbatim>\<open>null\<close> when nothing is stored or the text
  does not parse, and otherwise the parsed value itself, cast to \<^verbatim>\<open>Settings\<close>.
\<close>

definition loadSettings :: "stored_value \<Rightarrow> json option" where
  "loadSettings settingsJson =
     (case settingsJson of
        Parsable parsed \<Rightarrow> Some parsed
      | _ \<Rightarrow> None)"

section \<open>The specification's words, and inputs used in the evaluations below\<close>

text \<open>The large-text policy as the specification states it.\<close>

definition spec_fontSize :: "js_num \<Rightarrow> real" where
  "spec_fontSize fsize = (case fsize of Numeric n \<Rightarrow> n | MixedValue \<Rightarrow> 14)"

definition spec_isBold :: "js_num \<Rightarrow> bool" where
  "spec_isBold fweight = (case fweight of Numeric w \<Rightarrow> 700 \<le> w | MixedValue \<Rightarrow> False)"

definition spec_isLarge :: "js_num \<Rightarrow> js_num \<Rightarrow> bool" where
  "spec_isLarge fsize fweight =
     (18 \<le> spec_fontSize fsize \<or> (14 \<le> spec_fontSize fsize \<and> spec_isBold fweight))"

definition spec_requiredRatio :: "js_num \<Rightarrow> js_num \<Rightarrow> real" where
  "spec_requiredRatio fsize fweight = (if spec_isLarge fsize fweight then 3 else 4.5)"

text \<open>
  The first solid fill and the effective background as the specification states them:
  the first fill of the list that is solid and not marked invisible, absent when the list
  is empty or absent or no fill qualifies; going up, the colour of that fill of the first
  ancestor that has one, and white when there is none. The specification knows solid
  paints with a colour and other paints; the fills of the host are well formed when they
  hold no \<^verbatim>\<open>null\<close> and no solid paint without colour.
\<close>

fun spec_solidVisible :: "paint \<Rightarrow> bool" where
  "spec_solidVisible (Solid v c) = v"
| "spec_solidVisible (NonSolid v) = False"
| "spec_solidVisible NullPaint = False"

definition spec_resolveFirstSolidFill :: "fills_prop \<Rightarrow> color option" where
  "spec_resolveFirstSolidFill f =
     (case f of
        FillsArray ps \<Rightarrow>
          (case filter spec_solidVisible ps of
             Solid v (Some c) # rest \<Rightarrow> Some c
           | _ \<Rightarrow> None)
      | _ \<Rightarrow> None)"

fun spec_effectiveBackground :: "fills_prop list \<Rightarrow> color" where
  "spec_effectiveBackground [] = Color 1 1 1"
| "spec_effectiveBackground (f # up) =
     (case spec_resolveFirstSolidFill f of
        Some c \<Rightarrow> c
      | None \<Rightarrow> spec_effectiveBackground up)"

fun wellFormedPaint :: "paint \<Rightarrow> bool" where
  "wellFormedPaint NullPaint = False"
| "wellFormedPaint (Solid v None) = False"
| "wellFormedPaint (Solid v (Some c)) = True"
| "wellFormedPaint (NonSolid v) = True"

definition wellFormedFills :: "fills_prop \<Rightarrow> bool" where
  "wellFormedFills f = (case f of FillsArray ps \<Rightarrow> list_all wellFormedPaint ps | _ \<Rightarrow> True)"

text \<open>
  The mean of the contributing scores, rounded half up, and the overall score as the
  specification has it: the mean of the scores of exactly the enabled categories among
  those an audit computes.
\<close>

definition spec_mean :: "int list \<Rightarrow> int" where
  "spec_mean scores = js_round (real_of_int (sum_list scores) / real (length scores))"

definition spec_overall :: "settings \<Rightarrow> (issue_type \<times> int) list \<Rightarrow> int" where
  "spec_overall st scores =
     spec_mean (map snd (filter (\<lambda>cv. categoryEnabled st (fst cv)) scores))"

text \<open>
  Example inputs: a text node with one visible solid fill, a frame or group around
  children, settings with chosen toggles and key, and a remote service that cannot be
  reached.
\<close>

definition offlineRemote :: "request \<Rightarrow> remote_reply" where
  "offlineRemote rq = NetworkError ''offline''"

definition exText :: "string \<Rightarrow> color \<Rightarrow> real \<Rightarrow> props" where
  "exText chars col fsize =
     \<lparr>kind = TEXT, node_name = ''Label'', fills = FillsArray [Solid True (Some col)],
      fontSize = Numeric fsize, fontWeight = Numeric 400, characters = chars,
      reactions = 0, node_x = 0, node_width = 200, node_height = 48\<rparr>"

definition exBox :: "node_kind \<Rightarrow> string \<Rightarrow> fills_prop \<Rightarrow> props" where
  "exBox k nm fs =
     \<lparr>kind = k, node_name = nm, fills = fs,
      fontSize = MixedValue, fontWeight = MixedValue, characters = [],
      reactions = 0, node_x = 0, node_width = 400, node_height = 300\<rparr>"

definition exSettings :: "bool \<Rightarrow> bool \<Rightarrow> bool \<Rightarrow> bool \<Rightarrow> string \<Rightarrow> settings" where
  "exSettings a h s p key =
     \<lparr>accessibilityChecks = a, heuristicChecks = h, seoChecks = s, performanceChecks = p,
      exportFormat = ''markdown'', includeScreenshots = False, includeRemediation = True,
      lighthouseApiKey = key, useAI = False\<rparr>"

text \<open>
  The elements of a tree whose analysis fails outside the checks: the \<^verbatim>\<open>null\<close> nodes and
  the nodes whose children cannot be iterated (below which nothing is visited).
\<close>

fun failingElements :: "node \<Rightarrow> nat" where
  "failingElements NullNode = 1"
| "failingElements (Node p ch) =
     (case ch of
        NoChildren \<Rightarrow> 0
      | Children cs \<Rightarrow> sum_list (map failingElements cs)
      | BadChildren \<Rightarrow> 1)"

text \<open>
  A rounding function for the examples: \<^verbatim>\<open>Math.round(score * 100)\<close> when the product is
  exact. A remote report holding the single entry seo-meta-description with score 0.3.
\<close>

definition exactRound100 :: "real \<Rightarrow> int" where
  "exactRound100 sc = js_round (sc * 100)"

definition exSeoReport :: lighthouse_result where
  "exSeoReport =
     \<lparr>cat_accessibility = Score 1, cat_seo = Score 0.5, cat_performance = NoCategory,
      cat_best_practices = Score 1,
      audits = [(''seo-meta-description'',
                 \<lparr>audit_score = Some 0.3, audit_title = ''Document does not have a meta description'',
                  audit_description = ''Meta descriptions may be included in search results.''\<rparr>)]\<rparr>"

section \<open>Scorer: proofs\<close>

lemma accessibilityStep_weight:
  "accessibilityStep s i =
     s - (if itype i = Accessibility then spec_weight Accessibility (severity i) else 0)"
  by (cases "severity i") (simp_all add: accessibilityStep_def)

lemma heuristicsStep_weight:
  "heuristicsStep s i =
     s - (if itype i = Heuristic then spec_weight Heuristic (severity i) else 0)"
  by (cases "severity i") (simp_all add: heuristicsStep_def)

lemma foldl_accessibilityStep:
  "foldl accessibilityStep s iss =
     s - sum_list (map (\<lambda>i. spec_weight Accessibility (severity i))
                       (filter (\<lambda>i. itype i = Accessibility) iss))"
proof (induction iss arbitrary: s)
  case Nil
  show ?case by simp
next
  case (Cons i iss)
  have unroll: "foldl accessibilityStep s (i # iss) =
      accessibilityStep s i - sum_list (map (\<lambda>i. spec_weight Accessibility (severity i))
                       (filter (\<lambda>i. itype i = Accessibility) iss))"
    by (simp only: foldl_Cons Cons.IH)
  show ?case
    unfolding unroll by (simp add: accessibilityStep_weight)
qed

lemma foldl_heuristicsStep:
  "foldl heuristicsStep s iss =
     s - sum_list (map (\<lambda>i. spec_weight Heuristic (severity i))
                       (filter (\<lambda>i. itype i = Heuristic) iss))"
proof (induction iss arbitrary: s)
  case Nil
  show ?case by simp
next
  case (Cons i iss)
  have unroll: "foldl heuristicsStep s (i # iss) =
      heuristicsStep s i - sum_list (map (\<lambda>i. spec_weight Heuristic (severity i))
                       (filter (\<lambda>i. itype i = Heuristic) iss))"
    by (simp only: foldl_Cons Cons.IH)
  show ?case
    unfolding unroll by (simp add: heuristicsStep_weight)
qed

text \<open>
  C4. The accessibility and heuristics scores are 100 minus the summed weights of the
  issues of their own category (15/8/3 and 12/7/3), clamped to 0..100 once after the
  fold; so they lie in 0..100, the empty list scores 100, and issues of other categories
  do not change the score.
\<close>

theorem C4_scoreCategory:
  "calculateAccessibilityScore iss = spec_scoreCategory iss Accessibility
   \<and> calculateHeuristicsScore iss = spec_scoreCategory iss Heuristic
   \<and> 0 \<le> calculateAccessibilityScore iss \<and> calculateAccessibilityScore iss \<le> 100
   \<and> 0 \<le> calculateHeuristicsScore iss \<and> calculateHeuristicsScore iss \<le> 100
   \<and> calculateAccessibilityScore [] = 100 \<and> calculateHeuristicsScore [] = 100
   \<and> calculateAccessibilityScore iss =
       calculateAccessibilityScore (filter (\<lambda>i. itype i = Accessibility) iss)
   \<and> calculateHeuristicsScore iss =
       calculateHeuristicsScore (filter (\<lambda>i. itype i = Heuristic) iss)"
  by (simp add: calculateAccessibilityScore_def calculateHeuristicsScore_def
      spec_scoreCategory_def foldl_accessibilityStep foldl_heuristicsStep)

section \<open>Remote audit adapter: proofs\<close>

lemma auditStep_amended:
  "auditStep st acc e
   = acc @ (if categoryEnabled st (spec_category (fst e)) then spec_entryIssues st e else [])"
proof (cases "audit_score (snd e)")
  case None
  then show ?thesis by (simp add: auditStep_def spec_entryIssues_def Let_def)
next
  case (Some sc)
  have cat: "(if startsWith (fst e) ''seo-'' then Seo
              else if startsWith (fst e) ''performance-'' \<or> startsWith (fst e) ''speed-''
                      \<or> startsWith (fst e) ''load-'' then Performance
              else Accessibility) = spec_category (fst e)"
    by (simp add: spec_category_def)
  have sev: "(if sc < 0.5 then SevError else if sc < 0.9 then SevWarning else SevInfo)
             = spec_severity sc"
    by (simp add: spec_severity_def)
  have skip: "((spec_category (fst e) = Accessibility \<and> \<not> accessibilityChecks st)
               \<or> (spec_category (fst e) = Seo \<and> \<not> seoChecks st)
               \<or> (spec_category (fst e) = Performance \<and> \<not> performanceChecks st))
              = (\<not> categoryEnabled st (spec_category (fst e)))"
    by (cases "spec_category (fst e)") (simp_all add: spec_category_def split: if_splits)
  show ?thesis
    unfolding auditStep_def Let_def cat
    by (simp only: Some option.case sev skip)
       (simp add: spec_entryIssues_def spec_entryIssue_def Some)
qed

lemma foldl_auditStep:
  "foldl (auditStep st) acc es
   = acc @ concat (map (\<lambda>e. if categoryEnabled st (spec_category (fst e))
                                then spec_entryIssues st e else []) es)"
proof (induction es arbitrary: acc)
  case Nil
  show ?case by simp
next
  case (Cons e es)
  have "foldl (auditStep st) acc (e # es) = foldl (auditStep st) (auditStep st acc e) es"
    by simp
  also have "\<dots> = auditStep st acc e
                 @ concat (map (\<lambda>e. if categoryEnabled st (spec_category (fst e))
                                        then spec_entryIssues st e else []) es)"
    by (rule Cons.IH)
  also have "\<dots> = acc @ concat (map (\<lambda>e. if categoryEnabled st (spec_category (fst e))
                                        then spec_entryIssues st e else []) (e # es))"
    by (simp add: auditStep_amended)
  finally show ?case .
qed

text \<open>
  C5, as the claim states it, fails: the entry seo-meta-description with score 0.3 is
  neither passed nor not applicable, yet with the seo checks switched off the remote
  result holds no issue for it, where the specification's mapping gives one seo error.
\<close>

theorem C5_disabled_category_entry_dropped:
  "issues (processLighthouseResults exactRound100 exSeoReport (exSettings True True False True []))
     = []
   \<and> map itype
        (concat (map (spec_entryIssues (exSettings True True False True [])) (audits exSeoReport)))
     = [Seo]
   \<and> map severity
        (concat (map (spec_entryIssues (exSettings True True False True [])) (audits exSeoReport)))
     = [SevError]"
  by (simp add: processLighthouseResults_def Let_def auditStep_def exSeoReport_def
      exSettings_def spec_entryIssues_def spec_entryIssue_def spec_category_def
      spec_severity_def startsWith_def)

text \<open>
  C5, amended. The issues of a remote response are the concatenation, in enumeration
  order, of the issues of its audit entries. An entry gives no issue when its score is
  exactly 1 or null, or when the toggle of its category is off; every other entry gives
  exactly one issue, with the entry's title and description, whose category follows the
  rule-id prefix (seo- gives seo; performance-, speed-, load- give performance; anything
  else accessibility) and whose severity is error below 0.5, warning from 0.5 to below
  0.9, info otherwise. With every toggle on, the issues are those of the specification's
  mapping. The entry seo-meta-description with score 0.3 gives one issue of category seo
  and severity error when the seo checks are on, and none when they are off.
\<close>

theorem C5_remote_mapping:
  "issues (processLighthouseResults round100 data st)
     = concat (map (\<lambda>e. if categoryEnabled st (spec_category (fst e))
                          then spec_entryIssues st e else []) (audits data))
   \<and> issues (processLighthouseResults round100 data
         (st\<lparr>accessibilityChecks := True, seoChecks := True, performanceChecks := True\<rparr>))
     = concat (map (spec_entryIssues
         (st\<lparr>accessibilityChecks := True, seoChecks := True, performanceChecks := True\<rparr>))
         (audits data))
   \<and> map (\<lambda>i. (itype i, severity i, title i, description i))
        (issues (processLighthouseResults round100
           (data\<lparr>audits := [(''seo-meta-description'',
               \<lparr>audit_score = Some 0.3, audit_title = t, audit_description = d\<rparr>)]\<rparr>)
           (st\<lparr>seoChecks := True\<rparr>)))
      = [(Seo, SevError, t, [Lit d])]
   \<and> issues (processLighthouseResults round100
           (data\<lparr>audits := [(''seo-meta-description'',
               \<lparr>audit_score = Some 0.3, audit_title = t, audit_description = d\<rparr>)]\<rparr>)
           (st\<lparr>seoChecks := False\<rparr>))
      = []
   \<and> spec_entryIssues st (rid, \<lparr>audit_score = Some 1, audit_title = t, audit_description = d\<rparr>) = []
   \<and> spec_entryIssues st (rid, \<lparr>audit_score = None, audit_title = t, audit_description = d\<rparr>) = []
   \<and> (sc \<noteq> 1 \<longrightarrow>
        spec_entryIssues st (rid, \<lparr>audit_score = Some sc, audit_title = t, audit_description = d\<rparr>)
        = [\<lparr>itype = spec_category rid, severity = spec_severity sc, title = t,
            description = [Lit d],
            remediation = (if includeRemediation st then Some [generateRemediation rid] else None),
            element = None\<rparr>])"
proof -
  have all: "issues (processLighthouseResults round100 data st)
     = concat (map (\<lambda>e. if categoryEnabled st (spec_category (fst e))
                          then spec_entryIssues st e else []) (audits data))" for data st
    by (simp add: processLighthouseResults_def Let_def foldl_auditStep)
  have enabled: "categoryEnabled
      (st\<lparr>accessibilityChecks := True, seoChecks := True, performanceChecks := True\<rparr>)
      (spec_category rid') = True" for rid'
    by (simp add: spec_category_def)
  have on: "issues (processLighthouseResults round100 data
         (st\<lparr>accessibilityChecks := True, seoChecks := True, performanceChecks := True\<rparr>))
     = concat (map (spec_entryIssues
         (st\<lparr>accessibilityChecks := True, seoChecks := True, performanceChecks := True\<rparr>))
         (audits data))"
    unfolding all enabled by simp
  have ex_on: "map (\<lambda>i. (itype i, severity i, title i, description i))
        (issues (processLighthouseResults round100
           (data\<lparr>audits := [(''seo-meta-description'',
               \<lparr>audit_score = Some 0.3, audit_title = t, audit_description = d\<rparr>)]\<rparr>)
           (st\<lparr>seoChecks := True\<rparr>)))
      = [(Seo, SevError, t, [Lit d])]"
    unfolding all
    by (simp add: spec_entryIssues_def spec_entryIssue_def spec_category_def
        spec_severity_def startsWith_def)
  have ex_off: "issues (processLighthouseResults round100
           (data\<lparr>audits := [(''seo-meta-description'',
               \<lparr>audit_score = Some 0.3, audit_title = t, audit_description = d\<rparr>)]\<rparr>)
           (st\<lparr>seoChecks := False\<rparr>))
      = []"
    unfolding all by (simp add: spec_category_def startsWith_def)
  have one: "spec_entryIssues st (rid, \<lparr>audit_score = Some 1, audit_title = t, audit_description = d\<rparr>) = []"
    by (simp add: spec_entryIssues_def)
  have null: "spec_entryIssues st (rid, \<lparr>audit_score = None, audit_title = t, audit_description = d\<rparr>) = []"
    by (simp add: spec_entryIssues_def)
  have other: "sc \<noteq> 1 \<longrightarrow>
        spec_entryIssues st (rid, \<lparr>audit_score = Some sc, audit_title = t, audit_description = d\<rparr>)
        = [\<lparr>itype = spec_category rid, severity = spec_severity sc, title = t,
            description = [Lit d],
            remediation = (if includeRemediation st then Some [generateRemediation rid] else None),
            element = None\<rparr>]"
    by (simp add: spec_entryIssues_def spec_entryIssue_def)
  show ?thesis
    by (intro conjI all on ex_on ex_off one null other)
qed

theorem C5_remote_mapping_witness:
  "(0.3::real) \<noteq> 1
   \<and> spec_entryIssues (exSettings True True True True [])
        (''load-fast'', \<lparr>audit_score = Some 0.3, audit_title = ''T'', audit_description = ''D''\<rparr>)
       = [\<lparr>itype = Performance, severity = SevError, title = ''T'',
           description = [Lit ''D''],
           remediation = Some [Lit ''Review the issue and make appropriate changes to improve accessibility, performance, or SEO.''],
           element = None\<rparr>]"
proof -
  have neq: "(0.3::real) \<noteq> 1" by simp
  have "spec_entryIssues (exSettings True True True True [])
        (''load-fast'', \<lparr>audit_score = Some 0.3, audit_title = ''T'', audit_description = ''D''\<rparr>)
        = [\<lparr>itype = spec_category ''load-fast'', severity = spec_severity 0.3, title = ''T'',
            description = [Lit ''D''],
            remediation = (if includeRemediation (exSettings True True True True [])
                           then Some [generateRemediation ''load-fast''] else None),
            element = None\<rparr>]"
    using C5_remote_mapping [of "\<lambda>x. 0" undefined "exSettings True True True True []"
        "''T''" "''D''" "''load-fast''" "0.3",
        THEN conjunct2, THEN conjunct2, THEN conjunct2, THEN conjunct2, THEN conjunct2,
        THEN conjunct2] neq
    by (rule mp)
  then show ?thesis
    by (simp add: neq spec_category_def spec_severity_def startsWith_def exSettings_def
        generateRemediation_def remediationMap_def objectPrototypeKeys_def)
qed

section \<open>Accessibility rules: proofs\<close>

lemma wcagCheck_policy:
  "wcagCheck ratio fsize fweight =
     (if ratio < spec_requiredRatio fsize fweight then
        [\<lparr>itype = Accessibility, severity = SevWarning, title = ''Low contrast text'',
          description = [Lit ''Text has '', ToFixed1 ratio,
                         Lit '':1 contrast ratio (WCAG AA requires '',
                         Num (spec_requiredRatio fsize fweight), Lit '':1)''],
          remediation = Some [Lit ''Increase the contrast between text and background to at least '',
                              Num (spec_requiredRatio fsize fweight), Lit '':1.''],
          element = None\<rparr>]
      else [])"
  by (cases fsize; cases fweight)
     (simp_all add: wcagCheck_def spec_requiredRatio_def spec_isLarge_def spec_fontSize_def
        spec_isBold_def Let_def)

text \<open>
  The large-text policy of \<open>checkTextContrast\<close>: an issue exactly when the ratio is
  below 3 for large text and below 4.5 otherwise; at ratio 4, size 10 gives an issue and
  size 24 gives none.
\<close>

lemma checkTextContrast_large_text_policy:
  "(wcagCheck ratio fsize fweight \<noteq> []) = (ratio < spec_requiredRatio fsize fweight)
   \<and> length (wcagCheck ratio fsize fweight) \<le> 1
   \<and> wcagCheck 4 (Numeric 10) fweight \<noteq> []
   \<and> wcagCheck 4 (Numeric 24) fweight = []"
  by (simp add: wcagCheck_policy spec_requiredRatio_def spec_isLarge_def spec_fontSize_def)

lemma findSolidVisible_wellFormed:
  "list_all wellFormedPaint ps \<Longrightarrow>
   findSolidVisible ps
     = Inr (case filter spec_solidVisible ps of [] \<Rightarrow> None | q # rest \<Rightarrow> Some q)"
  by (induction ps rule: findSolidVisible.induct) simp_all

lemma getNodeColor_resolveFirstSolidFill:
  assumes "wellFormedFills f"
  shows "getNodeColor f = spec_resolveFirstSolidFill f"
proof (cases f)
  case (FillsArray ps)
  with assms have wf: "list_all wellFormedPaint ps"
    by (simp add: wellFormedFills_def)
  show ?thesis
  proof (cases "filter spec_solidVisible ps")
    case Nil
    with FillsArray wf show ?thesis
      by (simp add: getNodeColor_def getNodeColor_try_def spec_resolveFirstSolidFill_def
          findSolidVisible_wellFormed)
  next
    case (Cons q rest)
    then have "q \<in> set (filter spec_solidVisible ps)"
      by simp
    then have "spec_solidVisible q" and "q \<in> set ps"
      by simp_all
    moreover from wf \<open>q \<in> set ps\<close> have "wellFormedPaint q"
      by (simp add: list_all_iff)
    ultimately obtain c where q: "q = Solid True (Some c)"
      by (cases q rule: wellFormedPaint.cases) simp_all
    have nonempty: "ps \<noteq> []"
      using Cons by auto
    from FillsArray wf Cons q nonempty show ?thesis
      by (simp add: getNodeColor_def getNodeColor_try_def spec_resolveFirstSolidFill_def
          findSolidVisible_wellFormed)
  qed
next
  case NoFills
  then show ?thesis
    by (simp add: getNodeColor_def getNodeColor_try_def spec_resolveFirstSolidFill_def)
next
  case MixedFills
  then show ?thesis
    by (simp add: getNodeColor_def getNodeColor_try_def spec_resolveFirstSolidFill_def)
qed

lemma parentBackground_spec:
  "list_all wellFormedFills up \<Longrightarrow>
   (case parentBackground up of Some c \<Rightarrow> c | None \<Rightarrow> Color 1 1 1)
     = spec_effectiveBackground up"
proof (induction up)
  case Nil
  show ?case by simp
next
  case (Cons f up)
  then have wf: "wellFormedFills f" and rest: "list_all wellFormedFills up"
    by simp_all
  have same: "getNodeColor f = spec_resolveFirstSolidFill f"
    using wf by (rule getNodeColor_resolveFirstSolidFill)
  have guarded: "(case f of FillsArray ps \<Rightarrow> (if ps \<noteq> [] then getNodeColor f else None)
                   | _ \<Rightarrow> None) = spec_resolveFirstSolidFill f"
    unfolding same [symmetric]
    by (cases f) (simp_all add: getNodeColor_def getNodeColor_try_def)
  show ?case
    using Cons.IH [OF rest]
    by (simp only: parentBackground.simps spec_effectiveBackground.simps Let_def guarded)
       (simp split: option.splits)
qed

text \<open>
  On well formed fills the ancestor walk of \<open>checkTextContrast\<close> resolves the
  background of the specification: the first visible solid fill of the nearest ancestor
  that has one, and exactly white when no ancestor has one.
\<close>

lemma checkTextContrast_background:
  "list_all wellFormedFills up \<Longrightarrow>
   checkTextContrast up p =
     (if kind p \<noteq> TEXT then []
      else case getNodeColor (fills p) of
             None \<Rightarrow> []
           | Some textColor \<Rightarrow>
               wcagCheck (calculateContrastRatio textColor (spec_effectiveBackground up))
                 (fontSize p) (fontWeight p))"
  by (simp add: checkTextContrast_def parentBackground_spec Let_def split: option.splits)

text \<open>
  C10. With the mixed-value sentinel as font size the contrast check decides as for font
  size 14, so the text is large exactly when it is bold: it emits its issue exactly when
  the element is a text with a colour whose contrast ratio against the background is
  below 3 for a weight of 700 or more and below 4.5 otherwise. White text of mixed size
  on red (ratio just under 4) is reported at weight 400 and not at weight 700, where size
  13 is reported and size 14 is not. The text-size check emits nothing for the sentinel;
  it emits an issue exactly for a numeric size below 12.
\<close>

theorem C10_mixed_font_size:
  "checkTextContrast up (p\<lparr>fontSize := MixedValue\<rparr>)
     = checkTextContrast up (p\<lparr>fontSize := Numeric 14\<rparr>)
   \<and> wcagCheck ratio MixedValue fweight = wcagCheck ratio (Numeric 14) fweight
   \<and> (wcagCheck ratio MixedValue fweight \<noteq> [])
       = (ratio < (if spec_isBold fweight then 3 else 4.5))
   \<and> checkTextSize (p\<lparr>fontSize := MixedValue\<rparr>) = []
   \<and> (checkTextSize p \<noteq> []) = (\<exists>n. fontSize p = Numeric n \<and> n < 12)
   \<and> checkTextContrast up (p\<lparr>fontSize := MixedValue\<rparr>)
     = (if kind p = TEXT then
          (case getNodeColor (fills p) of
             None \<Rightarrow> []
           | Some textColor \<Rightarrow>
               wcagCheck (calculateContrastRatio textColor
                            (case parentBackground up of Some c \<Rightarrow> c | None \<Rightarrow> Color 1 1 1))
                 (Numeric 14) (fontWeight p))
        else [])
   \<and> (checkTextContrast up (p\<lparr>fontSize := MixedValue\<rparr>) \<noteq> [])
       = (kind p = TEXT
          \<and> (\<exists>textColor. getNodeColor (fills p) = Some textColor
                \<and> calculateContrastRatio textColor
                      (case parentBackground up of Some c \<Rightarrow> c | None \<Rightarrow> Color 1 1 1)
                    < (if spec_isBold (fontWeight p) then 3 else 4.5)))
   \<and> map title (checkTextContrast [FillsArray [Solid True (Some (Color 1 0 0))]]
        ((exText ''Title'' (Color 1 1 1) 24)\<lparr>fontSize := MixedValue\<rparr>))
     = [''Low contrast text'']
   \<and> checkTextContrast [FillsArray [Solid True (Some (Color 1 0 0))]]
        ((exText ''Title'' (Color 1 1 1) 24)\<lparr>fontSize := MixedValue, fontWeight := Numeric 700\<rparr>)
     = []
   \<and> checkTextContrast [FillsArray [Solid True (Some (Color 1 0 0))]]
        ((exText ''Title'' (Color 1 1 1) 14)\<lparr>fontWeight := Numeric 700\<rparr>)
     = []
   \<and> map title (checkTextContrast [FillsArray [Solid True (Some (Color 1 0 0))]]
        ((exText ''Title'' (Color 1 1 1) 13)\<lparr>fontWeight := Numeric 700\<rparr>))
     = [''Low contrast text'']
   \<and> checkTextSize ((exText ''Title'' (Color 1 1 1) 11)\<lparr>fontSize := MixedValue\<rparr>) = []
   \<and> map title (checkTextSize (exText ''Title'' (Color 1 1 1) 11)) = [''Small text size'']"
proof -
  have same: "wcagCheck r MixedValue w = wcagCheck r (Numeric 14) w" for r w
    by (simp add: wcagCheck_def)
  have contrast: "checkTextContrast up (p\<lparr>fontSize := MixedValue\<rparr>)
      = checkTextContrast up (p\<lparr>fontSize := Numeric 14\<rparr>)"
    by (simp add: checkTextContrast_def same Let_def split: option.splits)
  have threshold: "(wcagCheck r MixedValue w \<noteq> [])
      = (r < (if spec_isBold w then 3 else 4.5))" for r w
    by (simp add: wcagCheck_policy spec_requiredRatio_def spec_isLarge_def spec_fontSize_def)
  have size_mixed: "checkTextSize (p\<lparr>fontSize := MixedValue\<rparr>) = []"
    by (simp add: checkTextSize_def)
  have size_iff: "(checkTextSize p \<noteq> []) = (\<exists>n. fontSize p = Numeric n \<and> n < 12)"
    by (cases "fontSize p") (simp_all add: checkTextSize_def)
  have explicit: "checkTextContrast up (p\<lparr>fontSize := MixedValue\<rparr>)
     = (if kind p = TEXT then
          (case getNodeColor (fills p) of
             None \<Rightarrow> []
           | Some textColor \<Rightarrow>
               wcagCheck (calculateContrastRatio textColor
                            (case parentBackground up of Some c \<Rightarrow> c | None \<Rightarrow> Color 1 1 1))
                 (Numeric 14) (fontWeight p))
        else [])"
    by (simp add: checkTextContrast_def same Let_def split: option.splits)
  have emits: "(checkTextContrast up (p\<lparr>fontSize := MixedValue\<rparr>) \<noteq> [])
       = (kind p = TEXT
          \<and> (\<exists>textColor. getNodeColor (fills p) = Some textColor
                \<and> calculateContrastRatio textColor
                      (case parentBackground up of Some c \<Rightarrow> c | None \<Rightarrow> Color 1 1 1)
                    < (if spec_isBold (fontWeight p) then 3 else 4.5)))"
  proof (cases "kind p = TEXT")
    case False
    then show ?thesis by (simp add: explicit)
  next
    case True
    show ?thesis
    proof (cases "getNodeColor (fills p)")
      case None
      with True show ?thesis by (simp add: explicit)
    next
      case (Some textColor)
      with True show ?thesis
        by (simp add: explicit same [symmetric] threshold)
    qed
  qed
  have e1: "map title (checkTextContrast [FillsArray [Solid True (Some (Color 1 0 0))]]
        ((exText ''Title'' (Color 1 1 1) 24)\<lparr>fontSize := MixedValue\<rparr>))
     = [''Low contrast text'']"
    by (simp add: exText_def checkTextContrast_def getNodeColor_def getNodeColor_try_def
        wcagCheck_def calculateContrastRatio_def calculateLuminance_def convertChannel_def
        Let_def)
  have e2: "checkTextContrast [FillsArray [Solid True (Some (Color 1 0 0))]]
        ((exText ''Title'' (Color 1 1 1) 24)\<lparr>fontSize := MixedValue, fontWeight := Numeric 700\<rparr>)
     = []"
    by (simp add: exText_def checkTextContrast_def getNodeColor_def getNodeColor_try_def
        wcagCheck_def calculateContrastRatio_def calculateLuminance_def convertChannel_def
        Let_def)
  have e3: "checkTextContrast [FillsArray [Solid True (Some (Color 1 0 0))]]
        ((exText ''Title'' (Color 1 1 1) 14)\<lparr>fontWeight := Numeric 700\<rparr>)
     = []"
    by (simp add: exText_def checkTextContrast_def getNodeColor_def getNodeColor_try_def
        wcagCheck_def calculateContrastRatio_def calculateLuminance_def convertChannel_def
        Let_def)
  have e4: "map title (checkTextContrast [FillsArray [Solid True (Some (Color 1 0 0))]]
        ((exText ''Title'' (Color 1 1 1) 13)\<lparr>fontWeight := Numeric 700\<rparr>))
     = [''Low contrast text'']"
    by (simp add: exText_def checkTextContrast_def getNodeColor_def getNodeColor_try_def
        wcagCheck_def calculateContrastRatio_def calculateLuminance_def convertChannel_def
        Let_def)
  have e5: "checkTextSize ((exText ''Title'' (Color 1 1 1) 11)\<lparr>fontSize := MixedValue\<rparr>) = []"
    by (simp add: exText_def checkTextSize_def)
  have e6: "map title (checkTextSize (exText ''Title'' (Color 1 1 1) 11)) = [''Small text size'']"
    by (simp add: exText_def checkTextSize_def)
  show ?thesis
    by (intro conjI contrast same threshold size_mixed size_iff explicit emits e1 e2 e3 e4
        e5 e6)
qed

section \<open>The plugin's own frame audit: evaluations\<close>

text \<open>
  C1. White text of size 24 on a pure red frame has contrast ratio 1.05 / 0.2626 (just
  under 4): \<open>checkTextContrast\<close> applies the large-text ratio 3 and reports nothing,
  and reports the same text at size 10; the contrast loop of \<open>auditFrame\<close> compares
  with 4.5 whatever the size and reports the text of size 24.
\<close>

theorem C1_auditFrame_flat_threshold:
  "auditFrame_contrastIssues
     (Node (exBox FRAME ''Card'' (FillsArray [Solid True (Some (Color 1 0 0))]))
        (Children [Node (exText ''Title'' (Color 1 1 1) 24) NoChildren]))
   = Inr [[Lit [CHR 0x22], Lit ''Title'', Lit ([CHR 0x22] @ '' (contrast: ''),
           ToFixed2 (1.05 / 0.2626), Lit '':1)'']]
   \<and> checkTextContrast [FillsArray [Solid True (Some (Color 1 0 0))]]
        (exText ''Title'' (Color 1 1 1) 24) = []
   \<and> map title (checkTextContrast [FillsArray [Solid True (Some (Color 1 0 0))]]
        (exText ''Title'' (Color 1 1 1) 10)) = [''Low contrast text'']"
  by (simp add: auditFrame_contrastIssues_def textNodesOf_def contrastEntry_def
      findbackground_def relativeLuminance_def sRGB_def getRGB_def contrastRatio_def
      exBox_def exText_def checkTextContrast_def getNodeColor_def getNodeColor_try_def wcagCheck_def
      calculateContrastRatio_def calculateLuminance_def convertChannel_def Let_def)

text \<open>
  C2. A text inside a group without fills inside a frame with a solid black fill: the
  ancestor walk of \<open>checkTextContrast\<close> resolves black, the background of the
  specification; \<open>findbackground\<close> looks at the parent only and answers white.
\<close>

theorem C2_findbackground_parent_only:
  "findbackground (Some (fills (exBox GROUP ''Row'' NoFills)))
     = Inr (Solid True (Some (Color 1 1 1)))
   \<and> parentBackground [fills (exBox GROUP ''Row'' NoFills),
                        fills (exBox FRAME ''Card'' (FillsArray [Solid True (Some (Color 0 0 0))]))]
     = Some (Color 0 0 0)
   \<and> spec_effectiveBackground [fills (exBox GROUP ''Row'' NoFills),
                        fills (exBox FRAME ''Card'' (FillsArray [Solid True (Some (Color 0 0 0))]))]
     = Color 0 0 0
   \<and> auditFrame_contrastIssues
       (Node (exBox FRAME ''Card'' (FillsArray [Solid True (Some (Color 0 0 0))]))
          (Children [Node (exBox GROUP ''Row'' NoFills)
             (Children [Node (exText ''Title'' (Color 1 1 1) 24) NoChildren])]))
     = Inr [[Lit [CHR 0x22], Lit ''Title'', Lit ([CHR 0x22] @ '' (contrast: ''),
             ToFixed2 1, Lit '':1)'']]
   \<and> analyzeAccessibility (exSettings True True True True []) []
       (Node (exBox FRAME ''Card'' (FillsArray [Solid True (Some (Color 0 0 0))]))
          (Children [Node (exBox GROUP ''Row'' NoFills)
             (Children [Node (exText ''Title'' (Color 1 1 1) 24) NoChildren])]))
     = []"
  by (simp add: auditFrame_contrastIssues_def textNodesOf_def contrastEntry_def
      findbackground_def relativeLuminance_def sRGB_def getRGB_def contrastRatio_def
      exBox_def exText_def exSettings_def checkTextContrast_def getNodeColor_def getNodeColor_try_def wcagCheck_def
      calculateContrastRatio_def calculateLuminance_def convertChannel_def Let_def
      accessibilityOwnIssues_def checkTextSize_def spec_resolveFirstSolidFill_def)

text \<open>
  C7. On the text ``We use a cache and an API here'' the jargon check of \<open>auditFrame\<close>
  finds cache only: the words are lower-cased before they are looked up, and the jargon
  list holds API in capitals. The word reported is the word as split, so a word with
  punctuation is reported beside the bare word.
\<close>

theorem C7_jargon_API_never_matches:
  "auditFrame_jargon
     (Node (exBox FRAME ''Card'' NoFills)
        (Children [Node (exText ''We use a cache and an API here'' (Color 0 0 0) 16) NoChildren]))
   = [''cache'']
   \<and> uniqueJargon (foundJargon [''Our API: cache, cache''])= [''cache,'', ''cache'']"
  by (simp add: auditFrame_jargon_def textNodesOf_def exBox_def exText_def
      uniqueJargon_def foundJargon_def jargonWords_def splitWhitespace_def toLowerChar_def
      toLowerLatin1_def isSpace_def spaceAt_def isLetter_def jargon_def setAdd_def)

section \<open>Score fields and overall score: proofs\<close>

text \<open>
  Both audits start the average from the accessibility score with divisor 1, whatever the
  accessibility toggle: with the accessibility checks off and the seo checks on, a remote
  report without accessibility category and with seo score 0.5 gets the overall score 25,
  the mean of 0 and 50 (the comment on that computation in lighthouse.ts reads ``average
  of enabled categories'').
\<close>

lemma overall_counts_disabled_accessibility:
  "overall (processLighthouseResults exactRound100
      \<lparr>cat_accessibility = NoCategory, cat_seo = Score 0.5, cat_performance = NoCategory,
       cat_best_practices = Score 1, audits = []\<rparr>
      (exSettings False True True False [])) = 25"
  by (simp add: processLighthouseResults_def Let_def categoryPercent_def scoreOrZero_def
      exactRound100_def exSettings_def js_round_def)

text \<open>
  C3, as the claim states it, fails: the accessibility score is not an optional field.
  With the accessibility checks off, the frame audit of an empty frame named Modal and the
  remote audit of a report still carry an accessibility score.
\<close>

theorem C3_accessibility_score_always_present:
  "accessibilityChecks (exSettings False True True True []) = False
   \<and> accessibility (analyzeFrame [] None (Node (exBox FRAME ''Modal'' NoFills) (Children []))
                    (exSettings False True True True [])) = 100
   \<and> heuristics (analyzeFrame [] None (Node (exBox FRAME ''Modal'' NoFills) (Children []))
                    (exSettings False True True True [])) = Some 93
   \<and> accessibility (processLighthouseResults exactRound100
                    (exSeoReport\<lparr>cat_accessibility := NoCategory\<rparr>)
                    (exSettings False True True True [])) = 0"
  by (simp add: analyzeFrame_def exSettings_def exBox_def Let_def
      calculateAccessibilityScore_def calculateHeuristicsScore_def heuristicsStep_def
      heuristicOwnIssues_def checkConsistency_def checkVisibilityOfSystemStatus_def
      checkUserControlAndFreedom_def checkErrorPrevention_def checkRecognitionOverRecall_def
      checkAestheticAndMinimalistDesign_def checkConsistency_try_def
      checkVisibilityOfSystemStatus_try_def checkUserControlAndFreedom_try_def
      checkErrorPrevention_try_def checkRecognitionOverRecall_try_def
      checkAestheticAndMinimalistDesign_try_def nameHas_def toLowerChar_def toLowerLatin1_def
      startsWith_def isContainerKind_def js_round_def processLighthouseResults_def
      categoryPercent_def scoreOrZero_def exactRound100_def exSeoReport_def)

text \<open>
  C3, amended. The accessibility score is a plain field of the result and is present
  whatever its toggle. In the frame audit the heuristics score is present exactly when the
  heuristic checks are on, and no seo or performance score is present; in the remote
  audit the seo and the performance score are present exactly when their checks are on,
  and no heuristics score is present. When the accessibility checks are on, the overall
  score is the mean, rounded half up, of the scores of exactly the enabled categories
  among those the audit computes (accessibility and heuristics in the frame audit;
  accessibility, seo and performance in the remote audit): a disabled category is left
  out of the average, not counted as zero.
\<close>

theorem C3_score_presence_and_overall:
  "accessibility (analyzeFrame up par nd st)
     = calculateAccessibilityScore (analyzeAccessibility st up nd)
   \<and> heuristics (analyzeFrame up par nd st)
     = (if heuristicChecks st then Some (calculateHeuristicsScore (analyzeHeuristics st par nd))
        else None)
   \<and> seo (analyzeFrame up par nd st) = None
   \<and> performance (analyzeFrame up par nd st) = None
   \<and> (accessibilityChecks st \<longrightarrow>
        overall (analyzeFrame up par nd st)
        = spec_overall st
            [(Accessibility, calculateAccessibilityScore (analyzeAccessibility st up nd)),
             (Heuristic, calculateHeuristicsScore (analyzeHeuristics st par nd))])
   \<and> accessibility (processLighthouseResults round100 data st)
     = categoryPercent round100 (cat_accessibility data)
   \<and> heuristics (processLighthouseResults round100 data st) = None
   \<and> seo (processLighthouseResults round100 data st)
     = (if seoChecks st then Some (categoryPercent round100 (cat_seo data)) else None)
   \<and> performance (processLighthouseResults round100 data st)
     = (if performanceChecks st then Some (categoryPercent round100 (cat_performance data))
        else None)
   \<and> (accessibilityChecks st \<longrightarrow>
        overall (processLighthouseResults round100 data st)
        = spec_overall st
            [(Accessibility, categoryPercent round100 (cat_accessibility data)),
             (Seo, categoryPercent round100 (cat_seo data)),
             (Performance, categoryPercent round100 (cat_performance data))])"
proof -
  have frame: "accessibility (analyzeFrame up par nd st)
       = calculateAccessibilityScore (analyzeAccessibility st up nd)"
    "heuristics (analyzeFrame up par nd st)
       = (if heuristicChecks st
          then Some (calculateHeuristicsScore (analyzeHeuristics st par nd)) else None)"
    "seo (analyzeFrame up par nd st) = None"
    "performance (analyzeFrame up par nd st) = None"
    by (simp_all add: analyzeFrame_def Let_def)
  have frame_overall: "accessibilityChecks st \<longrightarrow>
        overall (analyzeFrame up par nd st)
        = spec_overall st
            [(Accessibility, calculateAccessibilityScore (analyzeAccessibility st up nd)),
             (Heuristic, calculateHeuristicsScore (analyzeHeuristics st par nd))]"
    by (simp add: analyzeFrame_def Let_def spec_overall_def spec_mean_def)
  have remote: "accessibility (processLighthouseResults round100 data st)
       = categoryPercent round100 (cat_accessibility data)"
    "heuristics (processLighthouseResults round100 data st) = None"
    "seo (processLighthouseResults round100 data st)
       = (if seoChecks st then Some (categoryPercent round100 (cat_seo data)) else None)"
    "performance (processLighthouseResults round100 data st)
       = (if performanceChecks st then Some (categoryPercent round100 (cat_performance data))
          else None)"
    by (simp_all add: processLighthouseResults_def Let_def)
  have remote_overall: "accessibilityChecks st \<longrightarrow>
        overall (processLighthouseResults round100 data st)
        = spec_overall st
            [(Accessibility, categoryPercent round100 (cat_accessibility data)),
             (Seo, categoryPercent round100 (cat_seo data)),
             (Performance, categoryPercent round100 (cat_performance data))]"
    by (simp add: processLighthouseResults_def Let_def spec_overall_def spec_mean_def
        add.assoc)
  show ?thesis
    by (intro conjI frame frame_overall remote remote_overall)
qed

text \<open>
  The theorem at the remote report with seo score 0.5 and accessibility score 1, the
  performance checks off: the overall score is 75, the mean of 100 and 50, and not 50, the
  mean with a zero for performance.
\<close>

theorem C3_score_presence_and_overall_witness:
  "accessibilityChecks (exSettings True True True False [])
   \<and> overall (processLighthouseResults exactRound100 exSeoReport
        (exSettings True True True False [])) = 75
   \<and> spec_overall (exSettings True True True False [])
        [(Accessibility, 100), (Seo, 50), (Performance, 0)] = 75
   \<and> performance (processLighthouseResults exactRound100 exSeoReport
        (exSettings True True True False [])) = None"
proof -
  have on: "accessibilityChecks (exSettings True True True False [])"
    by (simp add: exSettings_def)
  have "overall (processLighthouseResults exactRound100 exSeoReport
          (exSettings True True True False []))
        = spec_overall (exSettings True True True False [])
            [(Accessibility, categoryPercent exactRound100 (cat_accessibility exSeoReport)),
             (Seo, categoryPercent exactRound100 (cat_seo exSeoReport)),
             (Performance, categoryPercent exactRound100 (cat_performance exSeoReport))]"
    using C3_score_presence_and_overall
      [of "[]" None NullNode "exSettings True True True False []" exactRound100 exSeoReport,
       THEN conjunct2, THEN conjunct2, THEN conjunct2, THEN conjunct2, THEN conjunct2,
       THEN conjunct2, THEN conjunct2, THEN conjunct2, THEN conjunct2] on
    by (rule mp)
  moreover have percents:
    "categoryPercent exactRound100 (cat_accessibility exSeoReport) = 100"
    "categoryPercent exactRound100 (cat_seo exSeoReport) = 50"
    "categoryPercent exactRound100 (cat_performance exSeoReport) = 0"
    by (simp_all add: categoryPercent_def scoreOrZero_def exactRound100_def exSeoReport_def
        js_round_def)
  moreover have mean: "spec_overall (exSettings True True True False [])
        [(Accessibility, 100), (Seo, 50), (Performance, 0)] = 75"
    by (simp add: spec_overall_def spec_mean_def exSettings_def js_round_def)
  moreover have absent: "performance (processLighthouseResults exactRound100 exSeoReport
        (exSettings True True True False [])) = None"
    by (simp add: processLighthouseResults_def Let_def exSettings_def)
  ultimately show ?thesis
    using on by simp
qed

section \<open>Website audit without API key: proofs\<close>

text \<open>
  C6, as the claim states it, fails: without an API key \<open>auditWebsite\<close> sends nothing
  but returns the scores 85, 90, 75 without overall score and issues; the fallback result
  keeps its accessibility score 75 when every toggle is off; and \<open>analyzeWebsite\<close>
  sends its request without a key.
\<close>

theorem C6_no_key_is_not_the_fallback:
  "auditWebsite exactRound100 offlineRemote ''https://example.com''
       (exSettings True True True True [])
     = ([], Returned (BasicReport 85 90 75
          ''Basic audit complete. For more details, add a Google PageSpeed API key in settings.''))
   \<and> accessibility (runFallbackAudit ''https://example.com''
        (exSettings False False False False [])) = 75
   \<and> map req_key (fst (analyzeWebsite exactRound100 offlineRemote ''https://example.com''
        (exSettings True True True True []))) = [None]
   \<and> snd (analyzeWebsite exactRound100 offlineRemote ''https://example.com''
        (exSettings True True True True []))
     = Returned (runFallbackAudit ''https://example.com'' (exSettings True True True True []))"
  by (simp add: auditWebsite_def performBasicWebsiteAudit_def runFallbackAudit_def
      analyzeWebsite_def runLighthouseAudit_def exSettings_def offlineRemote_def Let_def)

text \<open>
  C6, amended. Without an API key \<open>auditWebsite\<close> (code.ts) issues no request and
  returns its own fixed placeholder, accessibility 85, seo 90, performance 75, whatever
  the toggles. \<open>analyzeWebsite\<close> always issues exactly one request, for the given
  address with the mobile strategy, the enabled categories among accessibility, seo and
  performance followed by best-practices, and the API key when there is one and no key
  when there is none; it returns the processed report when the service answers with one,
  and the fallback result when the request fails (the service cannot be reached, answers
  with an error status, or answers without a report). The fallback result is fixed:
  accessibility 75 and overall 73 whatever the toggles, seo 80 and performance 65 exactly
  when their checks are on, and the four fixed issues (two accessibility, one seo, one
  performance) of the enabled categories.
\<close>

theorem C6_fallback_and_no_key:
  "auditWebsite round100 remote url (st\<lparr>lighthouseApiKey := []\<rparr>)
     = ([], Returned (BasicReport 85 90 75
          ''Basic audit complete. For more details, add a Google PageSpeed API key in settings.''))
   \<and> fst (analyzeWebsite round100 remote url st)
     = [\<lparr>req_url = url, req_strategy = Some ''mobile'',
         req_categories = (if accessibilityChecks st then [''accessibility''] else [])
                          @ (if seoChecks st then [''seo''] else [])
                          @ (if performanceChecks st then [''performance''] else [])
                          @ [''best-practices''],
         req_key = (if lighthouseApiKey st = [] then None else Some (lighthouseApiKey st))\<rparr>]
   \<and> snd (analyzeWebsite round100 remote url st)
     = Returned
         (case remote (hd (fst (analyzeWebsite round100 remote url st))) of
            NetworkError msg \<Rightarrow> runFallbackAudit url st
          | Reply ok status body \<Rightarrow>
              (if ok then
                 (case body of
                    Report d \<Rightarrow> processLighthouseResults round100 d st
                  | ApiError m \<Rightarrow> runFallbackAudit url st)
               else runFallbackAudit url st))
   \<and> length (fst (analyzeWebsite round100 remote url st)) = 1
   \<and> snd (analyzeWebsite round100 remote url st)
     = (case snd (runLighthouseAudit round100 remote url st) of
          Returned r \<Rightarrow> Returned r
        | Thrown msg \<Rightarrow> Returned (runFallbackAudit url st))
   \<and> runFallbackAudit url st
     = \<lparr>accessibility = 75, heuristics = None,
        seo = (if seoChecks st then Some 80 else None),
        performance = (if performanceChecks st then Some 65 else None),
        overall = 73,
        issues = filter (\<lambda>i. categoryEnabled st (itype i)) fallbackIssues\<rparr>
   \<and> map (\<lambda>i. (itype i, severity i)) fallbackIssues
     = [(Accessibility, SevWarning), (Accessibility, SevError), (Seo, SevWarning),
        (Performance, SevWarning)]"
proof -
  define rq where "rq =
      \<lparr>req_url = url, req_strategy = Some ''mobile'',
       req_categories = (if accessibilityChecks st then [''accessibility''] else [])
                        @ (if seoChecks st then [''seo''] else [])
                        @ (if performanceChecks st then [''performance''] else [])
                        @ [''best-practices''],
       req_key = (if lighthouseApiKey st = [] then None else Some (lighthouseApiKey st))\<rparr>"
  have no_key: "auditWebsite round100 remote url (st\<lparr>lighthouseApiKey := []\<rparr>)
     = ([], Returned (BasicReport 85 90 75
          ''Basic audit complete. For more details, add a Google PageSpeed API key in settings.''))"
    by (simp add: auditWebsite_def performBasicWebsiteAudit_def)
  obtain requests out where run: "runLighthouseAudit round100 remote url st = (requests, out)"
    by (cases "runLighthouseAudit round100 remote url st")
  have "fst (runLighthouseAudit round100 remote url st) = [rq]"
    by (simp add: runLighthouseAudit_def Let_def rq_def)
  with run have one: "requests = [rq]"
    by simp
  have "snd (runLighthouseAudit round100 remote url st)
      = (case remote rq of
           NetworkError msg \<Rightarrow> Thrown [Lit ''Failed to run Lighthouse audit: '', Lit msg]
         | Reply ok status body \<Rightarrow>
             (if \<not> ok then
                Thrown [Lit ''Failed to run Lighthouse audit: '',
                        Lit ''Lighthouse API error: '', Lit status]
              else case body of
                     Report d \<Rightarrow> Returned (processLighthouseResults round100 d st)
                   | ApiError m \<Rightarrow>
                       Thrown [Lit ''Failed to run Lighthouse audit: '',
                               Message (TypeError_property ''accessibility'')]))"
    by (simp add: runLighthouseAudit_def Let_def rq_def)
  with run have out: "out
      = (case remote rq of
           NetworkError msg \<Rightarrow> Thrown [Lit ''Failed to run Lighthouse audit: '', Lit msg]
         | Reply ok status body \<Rightarrow>
             (if \<not> ok then
                Thrown [Lit ''Failed to run Lighthouse audit: '',
                        Lit ''Lighthouse API error: '', Lit status]
              else case body of
                     Report d \<Rightarrow> Returned (processLighthouseResults round100 d st)
                   | ApiError m \<Rightarrow>
                       Thrown [Lit ''Failed to run Lighthouse audit: '',
                               Message (TypeError_property ''accessibility'')]))"
    by simp
  have sent: "fst (analyzeWebsite round100 remote url st) = [rq]"
    using one by (cases out) (simp_all add: analyzeWebsite_def run)
  have result: "snd (analyzeWebsite round100 remote url st)
     = (case snd (runLighthouseAudit round100 remote url st) of
          Returned r \<Rightarrow> Returned r
        | Thrown msg \<Rightarrow> Returned (runFallbackAudit url st))"
    by (cases out) (simp_all add: analyzeWebsite_def run)
  have by_reply: "snd (analyzeWebsite round100 remote url st)
     = Returned
         (case remote (hd (fst (analyzeWebsite round100 remote url st))) of
            NetworkError msg \<Rightarrow> runFallbackAudit url st
          | Reply ok status body \<Rightarrow>
              (if ok then
                 (case body of
                    Report d \<Rightarrow> processLighthouseResults round100 d st
                  | ApiError m \<Rightarrow> runFallbackAudit url st)
               else runFallbackAudit url st))"
  proof (cases "remote rq")
    case (NetworkError msg)
    then show ?thesis
      unfolding result sent by (simp add: run out)
  next
    case (Reply ok status body)
    then show ?thesis
      unfolding result sent by (cases body) (simp_all add: run out)
  qed
  have kept: "filter (fallbackKeep st) fallbackIssues
     = filter (\<lambda>i. categoryEnabled st (itype i)) fallbackIssues"
    by (simp add: fallbackIssues_def fallbackKeep_def)
  have fallback: "runFallbackAudit url st
     = \<lparr>accessibility = 75, heuristics = None,
        seo = (if seoChecks st then Some 80 else None),
        performance = (if performanceChecks st then Some 65 else None),
        overall = 73,
        issues = filter (\<lambda>i. categoryEnabled st (itype i)) fallbackIssues\<rparr>"
    by (simp add: runFallbackAudit_def kept)
  have kinds: "map (\<lambda>i. (itype i, severity i)) fallbackIssues
     = [(Accessibility, SevWarning), (Accessibility, SevError), (Seo, SevWarning),
        (Performance, SevWarning)]"
    by (simp add: fallbackIssues_def)
  have len: "length (fst (analyzeWebsite round100 remote url st)) = 1"
    unfolding sent by simp
  show ?thesis
    by (intro conjI no_key sent [unfolded rq_def] by_reply len result fallback kinds)
qed

section \<open>Failures during the analysis: proofs\<close>

lemma concat_map_zip_index_split:
  "concat (map f (zip [0..<length (xs @ y # ys)] (xs @ y # ys)))
     = concat (map f (zip [0..<length xs] xs)) @ f (length xs, y)
       @ concat (map f (zip [Suc (length xs)..<length (xs @ y # ys)] ys))"
proof -
  have len: "length (xs @ y # ys) = length xs + Suc (length ys)"
    by simp
  have lower: "[0..<length xs + Suc (length ys)]
      = [0..<length xs] @ [length xs..<length xs + Suc (length ys)]"
    by (rule upt_add_eq_append) simp
  have upper: "[length xs..<length xs + Suc (length ys)]
      = length xs # [Suc (length xs)..<length xs + Suc (length ys)]"
    by (rule upt_conv_Cons) simp
  have "zip ([0..<length xs] @ length xs # [Suc (length xs)..<length xs + Suc (length ys)])
            (xs @ y # ys)
      = zip [0..<length xs] xs
        @ (length xs, y) # zip [Suc (length xs)..<length xs + Suc (length ys)] ys"
    by (simp only: zip_append length_upt diff_zero zip_Cons_Cons)
  then show ?thesis
    unfolding len lower upper by (simp only: map_append concat_append list.map concat.simps append_assoc)
qed

lemma length_filter_concat_map:
  "length (filter P (concat (map f xs))) = sum_list (map (\<lambda>x. length (filter P (f x))) xs)"
  by (induction xs) simp_all

lemma those_map_nodeProps_null:
  "NullNode \<in> set cs \<Longrightarrow> those (map nodeProps cs) = None"
proof (induction cs)
  case Nil
  then show ?case by simp
next
  case (Cons c cs)
  then show ?case by (cases c) (auto split: option.splits)
qed

lemma accessibilityOwnIssues_no_error:
  "filter (\<lambda>i. severity i = SevError) (accessibilityOwnIssues up p) = []"
  by (simp add: accessibilityOwnIssues_def checkTextContrast_def wcagCheck_def
      checkTextSize_def checkTouchTargetSize_def Let_def
      split: fills_prop.splits option.splits js_num.splits)

lemma checkConsistency_no_error:
  "filter (\<lambda>i. severity i = SevError) (checkConsistency p ch) = []"
proof (cases "checkConsistency_try p ch")
  case (Inl err)
  then show ?thesis by (simp add: checkConsistency_def)
next
  case (Inr pushed)
  then have "list_all (\<lambda>i. severity i = SevInfo) pushed"
    by (auto simp: checkConsistency_try_def Let_def
        split: children_prop.splits if_splits option.splits)
  then have "filter (\<lambda>i. severity i = SevError) pushed = []"
    by (induction pushed) simp_all
  with Inr show ?thesis by (simp add: checkConsistency_def)
qed

lemma checkVisibilityOfSystemStatus_no_error:
  "filter (\<lambda>i. severity i = SevError) (checkVisibilityOfSystemStatus p ch) = []"
proof (cases "checkVisibilityOfSystemStatus_try p ch")
  case (Inl err)
  then show ?thesis by (simp add: checkVisibilityOfSystemStatus_def)
next
  case (Inr pushed)
  then have "list_all (\<lambda>i. severity i = SevInfo) pushed"
    by (auto simp: checkVisibilityOfSystemStatus_try_def
        split: children_prop.splits if_splits option.splits)
  then have "filter (\<lambda>i. severity i = SevError) pushed = []"
    by (induction pushed) simp_all
  with Inr show ?thesis by (simp add: checkVisibilityOfSystemStatus_def)
qed

lemma checkUserControlAndFreedom_no_error:
  "filter (\<lambda>i. severity i = SevError) (checkUserControlAndFreedom p ch) = []"
proof (cases "checkUserControlAndFreedom_try p ch")
  case (Inl err)
  then show ?thesis by (simp add: checkUserControlAndFreedom_def)
next
  case (Inr pushed)
  then have "list_all (\<lambda>i. severity i = SevWarning) pushed"
    by (auto simp: checkUserControlAndFreedom_try_def
        split: children_prop.splits if_splits option.splits)
  then have "filter (\<lambda>i. severity i = SevError) pushed = []"
    by (induction pushed) simp_all
  with Inr show ?thesis by (simp add: checkUserControlAndFreedom_def)
qed

lemma checkErrorPrevention_no_error:
  "filter (\<lambda>i. severity i = SevError) (checkErrorPrevention p par) = []"
proof (cases "checkErrorPrevention_try p par")
  case (Inl err)
  then show ?thesis by (simp add: checkErrorPrevention_def)
next
  case (Inr pushed)
  then have "list_all (\<lambda>i. severity i = SevWarning) pushed"
    by (auto simp: checkErrorPrevention_try_def split: if_splits option.splits)
  then have "filter (\<lambda>i. severity i = SevError) pushed = []"
    by (induction pushed) simp_all
  with Inr show ?thesis by (simp add: checkErrorPrevention_def)
qed

lemma checkRecognitionOverRecall_no_error:
  "filter (\<lambda>i. severity i = SevError) (checkRecognitionOverRecall p par) = []"
proof (cases "checkRecognitionOverRecall_try p par")
  case (Inl err)
  then show ?thesis by (simp add: checkRecognitionOverRecall_def)
next
  case (Inr pushed)
  then have "list_all (\<lambda>i. severity i = SevWarning) pushed"
    by (auto simp: checkRecognitionOverRecall_try_def split: if_splits option.splits)
  then have "filter (\<lambda>i. severity i = SevError) pushed = []"
    by (induction pushed) simp_all
  with Inr show ?thesis by (simp add: checkRecognitionOverRecall_def)
qed

lemma checkAestheticAndMinimalistDesign_no_error:
  "filter (\<lambda>i. severity i = SevError) (checkAestheticAndMinimalistDesign p ch) = []"
proof (cases "checkAestheticAndMinimalistDesign_try p ch")
  case (Inl err)
  then show ?thesis by (simp add: checkAestheticAndMinimalistDesign_def)
next
  case (Inr pushed)
  then have "list_all (\<lambda>i. severity i = SevInfo) pushed"
    by (auto simp: checkAestheticAndMinimalistDesign_try_def Let_def
        split: children_prop.splits if_splits option.splits)
  then have "filter (\<lambda>i. severity i = SevError) pushed = []"
    by (induction pushed) simp_all
  with Inr show ?thesis by (simp add: checkAestheticAndMinimalistDesign_def)
qed

lemma heuristicOwnIssues_no_error:
  "filter (\<lambda>i. severity i = SevError) (heuristicOwnIssues p ch par) = []"
  by (simp add: heuristicOwnIssues_def checkConsistency_no_error
      checkVisibilityOfSystemStatus_no_error checkUserControlAndFreedom_no_error
      checkErrorPrevention_no_error checkRecognitionOverRecall_no_error
      checkAestheticAndMinimalistDesign_no_error)

lemma analyzeAccessibility_errors:
  "length (filter (\<lambda>i. severity i = SevError) (analyzeAccessibility st up nd))
     = (if accessibilityChecks st then failingElements nd else 0)"
proof (induction st up nd rule: analyzeAccessibility.induct)
  case (1 st up)
  show ?case by (simp add: accessibilityErrorIssue_def)
next
  case (2 st up p ch)
  show ?case
  proof (cases "accessibilityChecks st")
    case False
    then show ?thesis by simp
  next
    case True
    show ?thesis
    proof (cases ch)
      case NoChildren
      with True show ?thesis by (simp add: accessibilityOwnIssues_no_error)
    next
      case BadChildren
      with True show ?thesis
        by (simp add: accessibilityOwnIssues_no_error accessibilityErrorIssue_def)
    next
      case (Children cs)
      have each: "map (\<lambda>c. length (filter (\<lambda>i. severity i = SevError)
                          (analyzeAccessibility st (fills p # up) c))) cs
          = map failingElements cs"
        using "2.IH" [OF _ Children] True by (intro map_cong) simp_all
      have below: "length (filter (\<lambda>i. severity i = SevError)
                     (concat (map (analyzeAccessibility st (fills p # up)) cs)))
          = sum_list (map failingElements cs)"
        by (simp only: length_filter_concat_map each)
      from True Children show ?thesis
        by (simp add: accessibilityOwnIssues_no_error below)
    qed
  qed
qed

lemma analyzeHeuristics_errors:
  "length (filter (\<lambda>i. severity i = SevError) (analyzeHeuristics st par nd))
     = (if heuristicChecks st then failingElements nd else 0)"
proof (induction st par nd rule: analyzeHeuristics.induct)
  case (1 st par)
  show ?case by (simp add: heuristicErrorIssue_def)
next
  case (2 st par p ch)
  show ?case
  proof (cases "heuristicChecks st")
    case False
    then show ?thesis by simp
  next
    case True
    show ?thesis
    proof (cases ch)
      case NoChildren
      with True show ?thesis by (simp add: heuristicOwnIssues_no_error)
    next
      case BadChildren
      with True show ?thesis
        by (simp add: heuristicOwnIssues_no_error heuristicErrorIssue_def)
    next
      case (Children cs)
      have each: "map (\<lambda>ic. length (filter (\<lambda>i. severity i = SevError)
                          (case ic of (i, c) \<Rightarrow> analyzeHeuristics st (Some (cs, i)) c)))
              (zip [0..<length cs] cs)
          = map (\<lambda>ic. failingElements (snd ic)) (zip [0..<length cs] cs)"
      proof (intro map_cong refl)
        fix ic
        assume mem: "ic \<in> set (zip [0..<length cs] cs)"
        obtain i c where ic: "ic = (i, c)" by (cases ic)
        have "\<not> \<not> heuristicChecks st"
          using True by simp
        then have "length (filter (\<lambda>i. severity i = SevError)
                     (analyzeHeuristics st (Some (cs, i)) c))
            = (if heuristicChecks st then failingElements c else 0)"
          using Children mem ic [symmetric] by (rule "2.IH")
        with True show "length (filter (\<lambda>i. severity i = SevError)
                (case ic of (i, c) \<Rightarrow> analyzeHeuristics st (Some (cs, i)) c))
              = failingElements (snd ic)"
          by (simp add: ic)
      qed
      have snd_zip: "map snd (zip [0..<length cs] cs) = cs"
        by simp
      have unzip: "map (\<lambda>ic. failingElements (snd ic)) (zip [0..<length cs] cs)
          = map failingElements cs"
        using arg_cong [OF snd_zip, of "map failingElements"]
        by (simp only: map_map comp_def)
      have below: "length (filter (\<lambda>i. severity i = SevError)
                     (concat (map (\<lambda>ic. case ic of (i, c) \<Rightarrow> analyzeHeuristics st (Some (cs, i)) c)
                                (zip [0..<length cs] cs))))
          = sum_list (map failingElements cs)"
        by (simp only: length_filter_concat_map each unzip)
      have unfolded: "analyzeHeuristics st par (Node p (Children cs))
          = heuristicOwnIssues p (Children cs) par
            @ concat (map (\<lambda>ic. case ic of (i, c) \<Rightarrow> analyzeHeuristics st (Some (cs, i)) c)
                        (zip [0..<length cs] cs))"
        using True
        by (simp only: analyzeHeuristics.simps children_prop.case not_True_eq_False if_False)
      have "length (filter (\<lambda>i. severity i = SevError)
                (analyzeHeuristics st par (Node p (Children cs))))
          = sum_list (map failingElements cs)"
        by (simp only: unfolded filter_append length_append heuristicOwnIssues_no_error below
            list.size add_0)
      then show ?thesis
        unfolding Children using True
        by (simp only: if_True failingElements.simps children_prop.case)
    qed
  qed
qed

text \<open>
  C8, as the claim states it, fails on its own example: a text node whose fill list holds
  \<^verbatim>\<open>null\<close> makes the search for its colour throw, and the analysis of the node returns
  no issue at all.
\<close>

theorem C8_malformed_fill_is_silent:
  "getNodeColor_try (FillsArray [NullPaint]) = Inl (TypeError_property ''type'')
   \<and> analyzeAccessibility (exSettings True True True True []) []
       (Node ((exText ''Title'' (Color 0 0 0) 16)\<lparr>fills := FillsArray [NullPaint]\<rparr>) NoChildren)
     = []"
  by (simp add: exSettings_def exText_def accessibilityOwnIssues_def checkTextContrast_def
      getNodeColor_def getNodeColor_try_def checkTextSize_def)

text \<open>
  C8, amended. A failure of the analysis of an element outside its checks (the element
  is \<^verbatim>\<open>null\<close>, its children cannot be iterated) is caught and gives exactly one issue of
  severity error that carries the failure message, after the issues collected so far for
  that element. The analysis functions always return; every child is analysed by its own
  call, so a failing child contributes exactly its error issue between the issues of the
  children before and after it, and the error issues in a result are as many as the
  failing elements of the tree.

  A failure inside the colour lookup (a \<^verbatim>\<open>null\<close> entry or a solid paint without colour
  in the fill list) is caught there and the lookup yields no colour: a text with such
  fills gets no contrast issue, and an ancestor with such fills is passed over when the
  background is resolved. A failure inside one of the six heuristic checks (a \<^verbatim>\<open>null\<close>
  child or sibling, a children value that is not an array) is caught inside that check,
  which then gives no issue for the element. In particular a \<^verbatim>\<open>null\<close> sibling in front of
  an element silences the two checks of that element that inspect its siblings.
\<close>

theorem C8_failures_caught:
  "analyzeAccessibility st up NullNode
     = (if accessibilityChecks st then [accessibilityErrorIssue (TypeError_in ''fills'')] else [])
   \<and> analyzeAccessibility st up (Node p BadChildren)
     = (if accessibilityChecks st
        then accessibilityOwnIssues up p
             @ [accessibilityErrorIssue (TypeError_not_iterable ''children'')]
        else [])
   \<and> analyzeAccessibility st up (Node p (Children (cs1 @ c # cs2)))
     = (if accessibilityChecks st
        then accessibilityOwnIssues up p
             @ concat (map (analyzeAccessibility st (fills p # up)) cs1)
             @ analyzeAccessibility st (fills p # up) c
             @ concat (map (analyzeAccessibility st (fills p # up)) cs2)
        else [])
   \<and> analyzeHeuristics st par NullNode
     = (if heuristicChecks st then [heuristicErrorIssue (TypeError_in ''children'')] else [])
   \<and> analyzeHeuristics st par (Node p BadChildren)
     = (if heuristicChecks st
        then heuristicOwnIssues p BadChildren par
             @ [heuristicErrorIssue (TypeError_not_iterable ''children'')]
        else [])
   \<and> analyzeHeuristics st par (Node p (Children (cs1 @ c # cs2)))
     = (if heuristicChecks st
        then heuristicOwnIssues p (Children (cs1 @ c # cs2)) par
             @ concat (map (\<lambda>(i, d). analyzeHeuristics st (Some (cs1 @ c # cs2, i)) d)
                         (zip [0..<length cs1] cs1))
             @ analyzeHeuristics st (Some (cs1 @ c # cs2, length cs1)) c
             @ concat (map (\<lambda>(i, d). analyzeHeuristics st (Some (cs1 @ c # cs2, i)) d)
                         (zip [Suc (length cs1)..<length (cs1 @ c # cs2)] cs2))
        else [])
   \<and> itype (accessibilityErrorIssue err) = Accessibility
   \<and> severity (accessibilityErrorIssue err) = SevError
   \<and> description (accessibilityErrorIssue err)
     = [Lit ''Error analyzing accessibility: '', Message err]
   \<and> itype (heuristicErrorIssue err) = Heuristic
   \<and> severity (heuristicErrorIssue err) = SevError
   \<and> description (heuristicErrorIssue err) = [Lit ''Error analyzing heuristics: '', Message err]
   \<and> length (filter (\<lambda>i. severity i = SevError) (analyzeAccessibility st up nd))
     = (if accessibilityChecks st then failingElements nd else 0)
   \<and> length (filter (\<lambda>i. severity i = SevError) (analyzeHeuristics st par nd))
     = (if heuristicChecks st then failingElements nd else 0)
   \<and> getNodeColor_try (FillsArray (NullPaint # ps)) = Inl (TypeError_property ''type'')
   \<and> getNodeColor_try (FillsArray (NonSolid v # Solid False col # NullPaint # ps))
     = Inl (TypeError_property ''type'')
   \<and> getNodeColor_try (FillsArray (Solid True None # ps)) = Inl (TypeError_property ''r'')
   \<and> (getNodeColor_try f = Inl err \<longrightarrow>
        getNodeColor f = None
        \<and> checkTextContrast up (p\<lparr>fills := f\<rparr>) = []
        \<and> parentBackground (f # up) = parentBackground up)
   \<and> (NullNode \<in> set cs \<and> 2 < length cs \<and> isContainerKind p \<longrightarrow>
        checkConsistency_try p (Children cs) = Inl (TypeError_in ''x''))
   \<and> (checkConsistency_try p ch = Inl err \<longrightarrow> checkConsistency p ch = [])
   \<and> checkVisibilityOfSystemStatus_try (p\<lparr>node_name := ''Login form''\<rparr>) (Children (NullNode # cs))
     = Inl (TypeError_property ''name'')
   \<and> checkVisibilityOfSystemStatus_try (p\<lparr>node_name := ''Login form''\<rparr>) BadChildren
     = Inl (TypeError_not_function ''some'')
   \<and> (checkVisibilityOfSystemStatus_try p ch = Inl err \<longrightarrow>
        checkVisibilityOfSystemStatus p ch = [])
   \<and> checkUserControlAndFreedom_try (p\<lparr>node_name := ''Modal''\<rparr>) (Children (NullNode # cs))
     = Inl (TypeError_property ''name'')
   \<and> checkUserControlAndFreedom_try (p\<lparr>node_name := ''Modal''\<rparr>) BadChildren
     = Inl (TypeError_not_function ''some'')
   \<and> (checkUserControlAndFreedom_try p ch = Inl err \<longrightarrow> checkUserControlAndFreedom p ch = [])
   \<and> checkErrorPrevention_try (p\<lparr>kind := COMPONENT\<rparr>) (Some (NullNode # cs, Suc n))
     = Inl (TypeError_property ''name'')
   \<and> (checkErrorPrevention_try p par = Inl err \<longrightarrow> checkErrorPrevention p par = [])
   \<and> checkRecognitionOverRecall_try (p\<lparr>kind := RECTANGLE\<rparr>) (Some (NullNode # cs, Suc n))
     = Inl (TypeError_property ''type'')
   \<and> (checkRecognitionOverRecall_try p par = Inl err \<longrightarrow> checkRecognitionOverRecall p par = [])
   \<and> (NullNode \<in> set cs \<and> isContainerKind p \<longrightarrow>
        checkAestheticAndMinimalistDesign_try p (Children cs) = Inl (TypeError_property ''type''))
   \<and> (isContainerKind p \<longrightarrow>
        checkAestheticAndMinimalistDesign_try p BadChildren = Inl (TypeError_not_function ''filter''))
   \<and> (checkAestheticAndMinimalistDesign_try p ch = Inl err \<longrightarrow>
        checkAestheticAndMinimalistDesign p ch = [])"
proof -
  have a1: "analyzeAccessibility st up NullNode
     = (if accessibilityChecks st then [accessibilityErrorIssue (TypeError_in ''fills'')] else [])"
    by simp
  have a2: "analyzeAccessibility st up (Node p BadChildren)
     = (if accessibilityChecks st
        then accessibilityOwnIssues up p
             @ [accessibilityErrorIssue (TypeError_not_iterable ''children'')]
        else [])"
    by simp
  have a3: "analyzeAccessibility st up (Node p (Children (cs1 @ c # cs2)))
     = (if accessibilityChecks st
        then accessibilityOwnIssues up p
             @ concat (map (analyzeAccessibility st (fills p # up)) cs1)
             @ analyzeAccessibility st (fills p # up) c
             @ concat (map (analyzeAccessibility st (fills p # up)) cs2)
        else [])"
    by simp
  have h1: "analyzeHeuristics st par NullNode
     = (if heuristicChecks st then [heuristicErrorIssue (TypeError_in ''children'')] else [])"
    by simp
  have h2: "analyzeHeuristics st par (Node p BadChildren)
     = (if heuristicChecks st
        then heuristicOwnIssues p BadChildren par
             @ [heuristicErrorIssue (TypeError_not_iterable ''children'')]
        else [])"
    by simp
  have h3: "analyzeHeuristics st par (Node p (Children (cs1 @ c # cs2)))
     = (if heuristicChecks st
        then heuristicOwnIssues p (Children (cs1 @ c # cs2)) par
             @ concat (map (\<lambda>(i, d). analyzeHeuristics st (Some (cs1 @ c # cs2, i)) d)
                         (zip [0..<length cs1] cs1))
             @ analyzeHeuristics st (Some (cs1 @ c # cs2, length cs1)) c
             @ concat (map (\<lambda>(i, d). analyzeHeuristics st (Some (cs1 @ c # cs2, i)) d)
                         (zip [Suc (length cs1)..<length (cs1 @ c # cs2)] cs2))
        else [])"
    using concat_map_zip_index_split
      [of "\<lambda>(i, d). analyzeHeuristics st (Some (cs1 @ c # cs2, i)) d" cs1 c cs2]
    by (simp del: upt_Suc)
  have e: "itype (accessibilityErrorIssue err) = Accessibility"
    "severity (accessibilityErrorIssue err) = SevError"
    "description (accessibilityErrorIssue err)
       = [Lit ''Error analyzing accessibility: '', Message err]"
    "itype (heuristicErrorIssue err) = Heuristic"
    "severity (heuristicErrorIssue err) = SevError"
    "description (heuristicErrorIssue err) = [Lit ''Error analyzing heuristics: '', Message err]"
    by (simp_all add: accessibilityErrorIssue_def heuristicErrorIssue_def)
  have g1: "getNodeColor_try (FillsArray (NullPaint # ps)) = Inl (TypeError_property ''type'')"
    by (simp add: getNodeColor_try_def)
  have g2: "getNodeColor_try (FillsArray (NonSolid v # Solid False col # NullPaint # ps))
     = Inl (TypeError_property ''type'')"
    by (simp add: getNodeColor_try_def)
  have g3: "getNodeColor_try (FillsArray (Solid True None # ps)) = Inl (TypeError_property ''r'')"
    by (simp add: getNodeColor_try_def)
  have g4: "getNodeColor_try f = Inl err \<longrightarrow>
        getNodeColor f = None
        \<and> checkTextContrast up (p\<lparr>fills := f\<rparr>) = []
        \<and> parentBackground (f # up) = parentBackground up"
    by (cases f) (simp_all add: getNodeColor_def checkTextContrast_def)
  have c1: "NullNode \<in> set cs \<and> 2 < length cs \<and> isContainerKind p \<longrightarrow>
        checkConsistency_try p (Children cs) = Inl (TypeError_in ''x'')"
    by (simp add: checkConsistency_try_def those_map_nodeProps_null)
  have c2: "checkConsistency_try p ch = Inl err \<longrightarrow> checkConsistency p ch = []"
    by (simp add: checkConsistency_def)
  have v1: "checkVisibilityOfSystemStatus_try (p\<lparr>node_name := ''Login form''\<rparr>)
              (Children (NullNode # cs))
     = Inl (TypeError_property ''name'')"
    by (simp add: checkVisibilityOfSystemStatus_try_def nameHas_def toLowerChar_def
        toLowerLatin1_def startsWith_def)
  have v2: "checkVisibilityOfSystemStatus_try (p\<lparr>node_name := ''Login form''\<rparr>) BadChildren
     = Inl (TypeError_not_function ''some'')"
    by (simp add: checkVisibilityOfSystemStatus_try_def nameHas_def toLowerChar_def
        toLowerLatin1_def startsWith_def)
  have v3: "checkVisibilityOfSystemStatus_try p ch = Inl err \<longrightarrow>
        checkVisibilityOfSystemStatus p ch = []"
    by (simp add: checkVisibilityOfSystemStatus_def)
  have u1: "checkUserControlAndFreedom_try (p\<lparr>node_name := ''Modal''\<rparr>) (Children (NullNode # cs))
     = Inl (TypeError_property ''name'')"
    by (simp add: checkUserControlAndFreedom_try_def nameHas_def toLowerChar_def
        toLowerLatin1_def startsWith_def)
  have u2: "checkUserControlAndFreedom_try (p\<lparr>node_name := ''Modal''\<rparr>) BadChildren
     = Inl (TypeError_not_function ''some'')"
    by (simp add: checkUserControlAndFreedom_try_def nameHas_def toLowerChar_def
        toLowerLatin1_def startsWith_def)
  have u3: "checkUserControlAndFreedom_try p ch = Inl err \<longrightarrow>
        checkUserControlAndFreedom p ch = []"
    by (simp add: checkUserControlAndFreedom_def)
  have p1: "checkErrorPrevention_try (p\<lparr>kind := COMPONENT\<rparr>) (Some (NullNode # cs, Suc n))
     = Inl (TypeError_property ''name'')"
    by (simp add: checkErrorPrevention_try_def)
  have p2: "checkErrorPrevention_try p par = Inl err \<longrightarrow> checkErrorPrevention p par = []"
    by (simp add: checkErrorPrevention_def)
  have r1: "checkRecognitionOverRecall_try (p\<lparr>kind := RECTANGLE\<rparr>) (Some (NullNode # cs, Suc n))
     = Inl (TypeError_property ''type'')"
    by (simp add: checkRecognitionOverRecall_try_def)
  have r2: "checkRecognitionOverRecall_try p par = Inl err \<longrightarrow>
        checkRecognitionOverRecall p par = []"
    by (simp add: checkRecognitionOverRecall_def)
  have m1: "NullNode \<in> set cs \<and> isContainerKind p \<longrightarrow>
        checkAestheticAndMinimalistDesign_try p (Children cs) = Inl (TypeError_property ''type'')"
    by (simp add: checkAestheticAndMinimalistDesign_try_def those_map_nodeProps_null)
  have m2: "isContainerKind p \<longrightarrow>
        checkAestheticAndMinimalistDesign_try p BadChildren = Inl (TypeError_not_function ''filter'')"
    by (simp add: checkAestheticAndMinimalistDesign_try_def)
  have m3: "checkAestheticAndMinimalistDesign_try p ch = Inl err \<longrightarrow>
        checkAestheticAndMinimalistDesign p ch = []"
    by (simp add: checkAestheticAndMinimalistDesign_def)
  show ?thesis
    by (intro conjI a1 a2 a3 h1 h2 h3 e analyzeAccessibility_errors analyzeHeuristics_errors
        g1 g2 g3 g4 c1 c2 v1 v2 v3 u1 u2 u3 p1 p2 r1 r2 m1 m2 m3)
qed

text \<open>
  The theorem at three inputs. White text of size 10 on red is reported for its contrast;
  with a solid fill without colour the colour lookup fails and nothing is reported. A
  rectangle named input without siblings is reported for its missing label; behind a
  \<^verbatim>\<open>null\<close> sibling its check fails and reports nothing, and the frame around both holds
  the error issue of the \<^verbatim>\<open>null\<close> child only.
\<close>

theorem C8_failures_caught_witness:
  "getNodeColor_try (FillsArray [Solid True None]) = Inl (TypeError_property ''r'')
   \<and> checkTextContrast [FillsArray [Solid True (Some (Color 1 0 0))]]
        ((exText ''Title'' (Color 1 1 1) 10)\<lparr>fills := FillsArray [Solid True None]\<rparr>) = []
   \<and> map title (checkTextContrast [FillsArray [Solid True (Some (Color 1 0 0))]]
        (exText ''Title'' (Color 1 1 1) 10)) = [''Low contrast text'']
   \<and> checkRecognitionOverRecall_try (exBox RECTANGLE ''input'' NoFills)
        (Some ([NullNode, Node (exBox RECTANGLE ''input'' NoFills) NoChildren], 1))
     = Inl (TypeError_property ''type'')
   \<and> checkRecognitionOverRecall (exBox RECTANGLE ''input'' NoFills)
        (Some ([NullNode, Node (exBox RECTANGLE ''input'' NoFills) NoChildren], 1)) = []
   \<and> map title (checkRecognitionOverRecall (exBox RECTANGLE ''input'' NoFills)
        (Some ([Node (exBox RECTANGLE ''input'' NoFills) NoChildren], 0)))
     = [''Missing input label'']
   \<and> map title (analyzeHeuristics (exSettings True True True True []) None
        (Node (exBox FRAME ''Card'' NoFills)
           (Children ([] @ NullNode # [Node (exBox RECTANGLE ''input'' NoFills) NoChildren]))))
     = [''Heuristic analysis error'']
   \<and> map title (analyzeHeuristics (exSettings True True True True []) None
        (Node (exBox FRAME ''Card'' NoFills)
           (Children [Node (exBox RECTANGLE ''input'' NoFills) NoChildren])))
     = [''Missing input label'']"
proof -
  note colour_case = C8_failures_caught
    [where f = "FillsArray [Solid True None]" and err = "TypeError_property ''r''"
       and up = "[FillsArray [Solid True (Some (Color 1 0 0))]]"
       and p = "exText ''Title'' (Color 1 1 1) 10" and ps = "[]"]
  note sibling_case = C8_failures_caught
    [where p = "exBox RECTANGLE ''input'' NoFills" and err = "TypeError_property ''type''"
       and par = "Some ([NullNode, Node (exBox RECTANGLE ''input'' NoFills) NoChildren], 1)"]
  note frame_case = C8_failures_caught
    [where st = "exSettings True True True True []" and par = None
       and p = "exBox FRAME ''Card'' NoFills" and ?cs1.0 = "[]" and c = NullNode
       and ?cs2.0 = "[Node (exBox RECTANGLE ''input'' NoFills) NoChildren]"]
  have thrown: "getNodeColor_try (FillsArray [Solid True None]) = Inl (TypeError_property ''r'')"
    using colour_case
      [THEN conjunct2, THEN conjunct2, THEN conjunct2, THEN conjunct2, THEN conjunct2,
        THEN conjunct2, THEN conjunct2, THEN conjunct2, THEN conjunct2, THEN conjunct2,
        THEN conjunct2, THEN conjunct2, THEN conjunct2, THEN conjunct2, THEN conjunct2,
        THEN conjunct2, THEN conjunct1] .
  have "getNodeColor_try (FillsArray [Solid True None]) = Inl (TypeError_property ''r'') \<longrightarrow>
      getNodeColor (FillsArray [Solid True None]) = None
      \<and> checkTextContrast [FillsArray [Solid True (Some (Color 1 0 0))]]
           ((exText ''Title'' (Color 1 1 1) 10)\<lparr>fills := FillsArray [Solid True None]\<rparr>) = []
      \<and> parentBackground (FillsArray [Solid True None]
                           # [FillsArray [Solid True (Some (Color 1 0 0))]])
        = parentBackground [FillsArray [Solid True (Some (Color 1 0 0))]]"
    using colour_case
      [THEN conjunct2, THEN conjunct2, THEN conjunct2, THEN conjunct2, THEN conjunct2,
        THEN conjunct2, THEN conjunct2, THEN conjunct2, THEN conjunct2, THEN conjunct2,
        THEN conjunct2, THEN conjunct2, THEN conjunct2, THEN conjunct2, THEN conjunct2,
        THEN conjunct2, THEN conjunct2, THEN conjunct1] .
  then have silent: "checkTextContrast [FillsArray [Solid True (Some (Color 1 0 0))]]
        ((exText ''Title'' (Color 1 1 1) 10)\<lparr>fills := FillsArray [Solid True None]\<rparr>) = []"
    using thrown by simp
  have reported: "map title (checkTextContrast [FillsArray [Solid True (Some (Color 1 0 0))]]
        (exText ''Title'' (Color 1 1 1) 10)) = [''Low contrast text'']"
    by (simp add: exText_def checkTextContrast_def getNodeColor_def getNodeColor_try_def
        wcagCheck_def calculateContrastRatio_def calculateLuminance_def convertChannel_def
        Let_def)
  have fails: "checkRecognitionOverRecall_try (exBox RECTANGLE ''input'' NoFills)
        (Some ([NullNode, Node (exBox RECTANGLE ''input'' NoFills) NoChildren], 1))
     = Inl (TypeError_property ''type'')"
    by (simp add: checkRecognitionOverRecall_try_def exBox_def)
  have "checkRecognitionOverRecall_try (exBox RECTANGLE ''input'' NoFills)
        (Some ([NullNode, Node (exBox RECTANGLE ''input'' NoFills) NoChildren], 1))
      = Inl (TypeError_property ''type'') \<longrightarrow>
      checkRecognitionOverRecall (exBox RECTANGLE ''input'' NoFills)
        (Some ([NullNode, Node (exBox RECTANGLE ''input'' NoFills) NoChildren], 1)) = []"
    using sibling_case
      [THEN conjunct2, THEN conjunct2, THEN conjunct2, THEN conjunct2, THEN conjunct2,
        THEN conjunct2, THEN conjunct2, THEN conjunct2, THEN conjunct2, THEN conjunct2,
        THEN conjunct2, THEN conjunct2, THEN conjunct2, THEN conjunct2, THEN conjunct2,
        THEN conjunct2, THEN conjunct2, THEN conjunct2, THEN conjunct2, THEN conjunct2,
        THEN conjunct2, THEN conjunct2, THEN conjunct2, THEN conjunct2, THEN conjunct2,
        THEN conjunct2, THEN conjunct2, THEN conjunct2, THEN conjunct2, THEN conjunct1] .
  then have silenced: "checkRecognitionOverRecall (exBox RECTANGLE ''input'' NoFills)
        (Some ([NullNode, Node (exBox RECTANGLE ''input'' NoFills) NoChildren], 1)) = []"
    using fails by (rule mp)
  have alone: "map title (checkRecognitionOverRecall (exBox RECTANGLE ''input'' NoFills)
        (Some ([Node (exBox RECTANGLE ''input'' NoFills) NoChildren], 0)))
     = [''Missing input label'']"
    by (simp add: checkRecognitionOverRecall_def checkRecognitionOverRecall_try_def exBox_def)
  have "analyzeHeuristics (exSettings True True True True []) None
        (Node (exBox FRAME ''Card'' NoFills)
           (Children ([] @ NullNode # [Node (exBox RECTANGLE ''input'' NoFills) NoChildren])))
     = (if heuristicChecks (exSettings True True True True [])
        then heuristicOwnIssues (exBox FRAME ''Card'' NoFills)
               (Children ([] @ NullNode # [Node (exBox RECTANGLE ''input'' NoFills) NoChildren]))
               None
             @ concat (map (\<lambda>(i, d). analyzeHeuristics (exSettings True True True True [])
                   (Some ([] @ NullNode # [Node (exBox RECTANGLE ''input'' NoFills) NoChildren], i)) d)
                         (zip [0..<length ([]::node list)] []))
             @ analyzeHeuristics (exSettings True True True True [])
                 (Some ([] @ NullNode # [Node (exBox RECTANGLE ''input'' NoFills) NoChildren],
                        length ([]::node list))) NullNode
             @ concat (map (\<lambda>(i, d). analyzeHeuristics (exSettings True True True True [])
                   (Some ([] @ NullNode # [Node (exBox RECTANGLE ''input'' NoFills) NoChildren], i)) d)
                         (zip [Suc (length ([]::node list))
                               ..<length ([] @ NullNode # [Node (exBox RECTANGLE ''input'' NoFills) NoChildren])]
                              [Node (exBox RECTANGLE ''input'' NoFills) NoChildren]))
        else [])"
    using frame_case
      [THEN conjunct2, THEN conjunct2, THEN conjunct2, THEN conjunct2, THEN conjunct2,
        THEN conjunct1] .
  then have framed: "map title (analyzeHeuristics (exSettings True True True True []) None
        (Node (exBox FRAME ''Card'' NoFills)
           (Children ([] @ NullNode # [Node (exBox RECTANGLE ''input'' NoFills) NoChildren]))))
     = [''Heuristic analysis error'']"
    by (simp add: exSettings_def exBox_def heuristicOwnIssues_def heuristicErrorIssue_def
        checkConsistency_def checkVisibilityOfSystemStatus_def checkUserControlAndFreedom_def
        checkErrorPrevention_def checkRecognitionOverRecall_def
        checkAestheticAndMinimalistDesign_def checkConsistency_try_def
        checkVisibilityOfSystemStatus_try_def checkUserControlAndFreedom_try_def
        checkErrorPrevention_try_def checkRecognitionOverRecall_try_def
        checkAestheticAndMinimalistDesign_try_def nameHas_def toLowerChar_def toLowerLatin1_def
        startsWith_def isContainerKind_def)
  have unframed: "map title (analyzeHeuristics (exSettings True True True True []) None
        (Node (exBox FRAME ''Card'' NoFills)
           (Children [Node (exBox RECTANGLE ''input'' NoFills) NoChildren])))
     = [''Missing input label'']"
    by (simp add: exSettings_def exBox_def heuristicOwnIssues_def heuristicErrorIssue_def
        checkConsistency_def checkVisibilityOfSystemStatus_def checkUserControlAndFreedom_def
        checkErrorPrevention_def checkRecognitionOverRecall_def
        checkAestheticAndMinimalistDesign_def checkConsistency_try_def
        checkVisibilityOfSystemStatus_try_def checkUserControlAndFreedom_try_def
        checkErrorPrevention_try_def checkRecognitionOverRecall_try_def
        checkAestheticAndMinimalistDesign_try_def nameHas_def toLowerChar_def toLowerLatin1_def
        startsWith_def isContainerKind_def utf16Length_def)
  show ?thesis
    by (intro conjI thrown silent reported fails silenced alone framed unframed)
qed

section \<open>Loading settings: proofs\<close>

lemma map_of_setProp: "map_of (setProp obj k v) = (map_of obj)(k \<mapsto> v)"
  by (induction obj) auto

lemma getProp_foldl_setProp:
  "getProp (foldl (\<lambda>obj kv. setProp obj (fst kv) (snd kv)) target es) k
     = (case map_of (rev es) k of Some v \<Rightarrow> Some v | None \<Rightarrow> getProp target k)"
proof (induction es arbitrary: target)
  case Nil
  show ?case by simp
next
  case (Cons e es)
  have "getProp (foldl (\<lambda>obj kv. setProp obj (fst kv) (snd kv)) target (e # es)) k
      = getProp (foldl (\<lambda>obj kv. setProp obj (fst kv) (snd kv))
                   (setProp target (fst e) (snd e)) es) k"
    by simp
  also have "\<dots> = (case map_of (rev es) k of
                      Some v \<Rightarrow> Some v
                    | None \<Rightarrow> getProp (setProp target (fst e) (snd e)) k)"
    by (rule Cons.IH)
  also have "\<dots> = (case map_of (rev (e # es)) k of
                      Some v \<Rightarrow> Some v
                    | None \<Rightarrow> getProp target k)"
    by (cases e) (simp add: getProp_def map_of_setProp map_add_def split: option.splits)
  finally show ?case .
qed

text \<open>
  The \<^verbatim>\<open>load-settings\<close> handler of code.ts layers the parsed value over the defaults:
  each property of the loaded settings is the persisted one when the snapshot has it and
  the default otherwise, so each of the nine settings fields is defined.
\<close>

lemma onmessage_loadSettings_layers:
  "getProp (fst (onmessage_loadSettings cur (Parsable parsed))) k
     = (case map_of (rev (ownEntries parsed)) k of
          Some v \<Rightarrow> Some v
        | None \<Rightarrow> getProp defaultSettings k)"
proof -
  have "objectAssign [] (JObj defaultSettings) = defaultSettings"
    by (simp add: objectAssign_def defaultSettings_def isArrayIndex_def isDigitChar_def)
  then show ?thesis
    by (simp add: onmessage_loadSettings_def objectAssign_def getProp_foldl_setProp Let_def)
qed

text \<open>
  C9. A legacy snapshot that holds the API key only: \<open>loadSettings\<close> (settings module)
  returns the parsed object as it is, so \<^verbatim>\<open>accessibilityChecks\<close> is undefined in what
  it returns; the \<^verbatim>\<open>load-settings\<close> handler of code.ts gives the default for the
  missing field and the persisted value for the key.
\<close>

theorem C9_loadSettings_returns_snapshot_unlayered:
  "loadSettings (Parsable (JObj [(''lighthouseApiKey'', JStr ''k'')]))
     = Some (JObj [(''lighthouseApiKey'', JStr ''k'')])
   \<and> getProp (ownEntries (JObj [(''lighthouseApiKey'', JStr ''k'')])) ''accessibilityChecks''
     = None
   \<and> getProp (fst (onmessage_loadSettings defaultSettings
                     (Parsable (JObj [(''lighthouseApiKey'', JStr ''k'')]))))
        ''accessibilityChecks''
     = Some (JBool True)
   \<and> getProp (fst (onmessage_loadSettings defaultSettings
                     (Parsable (JObj [(''lighthouseApiKey'', JStr ''k'')]))))
        ''lighthouseApiKey''
     = Some (JStr ''k'')"
  by (simp add: loadSettings_def onmessage_loadSettings_def objectAssign_def getProp_def
      defaultSettings_def Let_def isArrayIndex_def isDigitChar_def)

end
